theory Spec2Isabelle
  imports Main "HOL-Library.Sublist"
begin

section \<open>Syntax trees of the two dialects\<close>

text \<open>
  The rules receive nodes of two parsers. Only the fields the rules read are modelled,
  with the shapes the parsers give them. A parser always gives an opening element its
  name and its attribute list, and a template element its start tag, so the guards of
  the code for their absence (\<open>node.attributes?.\<close>, \<open>startTag?.attributes\<close>,
  \<open>!jsxNode.name\<close>) have no branch here.

  A JSX opening element has a name and a list of attributes. A name is an identifier
  (\<open><div>\<close>), a namespaced name (\<open><svg:a>\<close>, \<open>xlink:href\<close>) or a member expression
  (\<open><Form.Input>\<close>); only an identifier has a string under \<open>.name\<close>. An attribute is
  either a \<open>JSXAttribute\<close> with a name and an optional value, or a
  \<open>JSXSpreadAttribute\<close>, which has no name. An attribute value is a \<open>Literal\<close> node
  (\<open>JSXLiteral\<close> here, as in \<open>href="#"\<close>), a \<open>JSXExpressionContainer\<close> around an
  expression (\<open>href={...}\<close>), or a nested JSX element. An expression is a \<open>Literal\<close> node
  or anything else (\<open>Dynamic\<close>: an identifier, a call, a template string, ...), kept as its
  source text.

  The value of a literal is a string, a number, a boolean or null; numbers are
  modelled as integers, which is all the rules here distinguish (they only ask
  whether a value is a string, or whether it is truthy).
\<close>

datatype literal = LString string | LNumber int | LBool bool | LNull

datatype expression =
    Literal literal
  | Dynamic string

datatype jsx_name =
    JSXIdentifier string
  | JSXNamespacedName string string
  | JSXMemberExpression string string

datatype jsx_attr_value =
    JSXLiteral literal
  | JSXExpressionContainer expression
  | JSXElementValue

datatype jsx_attribute =
    JSXAttribute jsx_name "jsx_attr_value option"
  | JSXSpreadAttribute expression

datatype jsx_node = JSXOpeningElement (jsx_name: jsx_name) (jsx_attributes: "jsx_attribute list")

text \<open>
  A Vue template element has a name (a string) and a start tag with attributes. A plain
  attribute (\<open>directive = false\<close>) has a string under \<open>key.name\<close> and a \<open>VLiteral\<close> value
  or none. A directive (\<open>directive = true\<close>) has an identifier under \<open>key.name\<close>, whose
  own \<open>.name\<close> is the directive's name (\<open>on\<close>, \<open>bind\<close>, ...), an optional argument under
  \<open>key.argument\<close> (an identifier, or an expression container for a dynamic argument),
  and an expression container as value or none; the expression is kept as its text.
\<close>

datatype vue_argument =
    VIdentifier string
  | VDynamicArgument string

datatype vue_attribute =
    VAttribute string "string option"
  | VDirective string "vue_argument option" "string option"

datatype vue_node = VElement (vue_name: string) (vue_attributes: "vue_attribute list")

text \<open>
  A rule's output is the list of its calls of \<open>context.report\<close>, each with its message
  id and its data (placeholder and string pairs, in the order written).
\<close>

datatype report = Report (messageId: string) (data: "(string \<times> string) list")

subsection \<open>Strings\<close>

text \<open>
  Strings are byte strings in UTF-8. \<open>String.prototype.toLowerCase\<close> is a built-in of the
  language, not code of the repository. On a string of ASCII characters it maps the 26
  capitals to their small letters and leaves every other character alone, which is
  written out here. On a string with a character beyond ASCII it follows the Unicode
  case mappings (U+212A, the Kelvin sign, becomes \<open>k\<close>; a final sigma depends on its
  context), which are not modelled: there the result is what the parameter
  \<open>unicodeLower\<close> gives for the whole string, and every rule that lower-cases takes that
  parameter. A theorem with \<open>U\<close> free holds whatever the built-in does beyond ASCII.
\<close>

definition isAscii :: "char \<Rightarrow> bool" where
  "isAscii c = ((of_char c :: nat) < 128)"

definition toLowerChar :: "char \<Rightarrow> char" where
  "toLowerChar c =
     (let n = (of_char c :: nat) in if 65 \<le> n \<and> n \<le> 90 then char_of (n + 32) else c)"

definition toLowerCase ::
  "(string \<Rightarrow> string) \<Rightarrow> string \<Rightarrow> string" where
  "toLowerCase unicodeLower s =
     (if list_all isAscii s then map toLowerChar s else unicodeLower s)"

definition startsWith :: "string \<Rightarrow> string \<Rightarrow> bool" where
  "startsWith s p = prefix p s"

section \<open>Event handler detection (utils/event-utils.ts)\<close>

definition JSX_CLICK_HANDLERS :: "string list" where
  "JSX_CLICK_HANDLERS = [''onClick'', ''onClickCapture'']"

definition JSX_KEYBOARD_HANDLERS :: "string list" where
  "JSX_KEYBOARD_HANDLERS =
     [''onKeyDown'', ''onKeyDownCapture'', ''onKeyUp'', ''onKeyUpCapture'',
      ''onKeyPress'', ''onKeyPressCapture'']"

definition JSX_MOUSE_HANDLERS :: "string list" where
  "JSX_MOUSE_HANDLERS =
     [''onMouseDown'', ''onMouseDownCapture'', ''onMouseUp'', ''onMouseUpCapture'',
      ''onMouseOver'', ''onMouseOverCapture'', ''onMouseOut'', ''onMouseOutCapture'',
      ''onMouseEnter'', ''onMouseLeave'']"

definition JSX_FOCUS_HANDLERS :: "string list" where
  "JSX_FOCUS_HANDLERS = [''onFocus'', ''onFocusCapture'', ''onBlur'', ''onBlurCapture'']"

definition VUE_CLICK_HANDLERS :: "string list" where
  "VUE_CLICK_HANDLERS = [''click'', ''@click'', ''v-on:click'']"

definition VUE_KEYBOARD_HANDLERS :: "string list" where
  "VUE_KEYBOARD_HANDLERS =
     [''keydown'', ''keyup'', ''keypress'', ''@keydown'', ''@keyup'', ''@keypress'',
      ''v-on:keydown'', ''v-on:keyup'', ''v-on:keypress'']"

definition VUE_MOUSE_HANDLERS :: "string list" where
  "VUE_MOUSE_HANDLERS =
     [''mousedown'', ''mouseup'', ''mouseover'', ''mouseout'', ''mouseenter'', ''mouseleave'',
      ''@mousedown'', ''@mouseup'', ''@mouseover'', ''@mouseout'', ''@mouseenter'',
      ''@mouseleave'',
      ''v-on:mousedown'', ''v-on:mouseup'', ''v-on:mouseover'', ''v-on:mouseout'',
      ''v-on:mouseenter'', ''v-on:mouseleave'']"

definition VUE_FOCUS_HANDLERS :: "string list" where
  "VUE_FOCUS_HANDLERS =
     [''focus'', ''blur'', ''@focus'', ''@blur'', ''v-on:focus'', ''v-on:blur'']"

text \<open>
  The module-level sets. A \<open>Set\<close> built from a list is used for membership only, so it
  is the list it was built from, asked for membership in its \<open>set\<close>.
\<close>

definition JSX_CLICK_HANDLERS_SET :: "string list" where
  "JSX_CLICK_HANDLERS_SET = JSX_CLICK_HANDLERS"

definition JSX_KEYBOARD_HANDLERS_SET :: "string list" where
  "JSX_KEYBOARD_HANDLERS_SET = JSX_KEYBOARD_HANDLERS"

definition JSX_MOUSE_HANDLERS_SET :: "string list" where
  "JSX_MOUSE_HANDLERS_SET = JSX_MOUSE_HANDLERS"

definition JSX_FOCUS_HANDLERS_SET :: "string list" where
  "JSX_FOCUS_HANDLERS_SET = JSX_FOCUS_HANDLERS"

definition JSX_ALL_HANDLERS_SET :: "string list" where
  "JSX_ALL_HANDLERS_SET =
     JSX_CLICK_HANDLERS @ JSX_KEYBOARD_HANDLERS @ JSX_MOUSE_HANDLERS @ JSX_FOCUS_HANDLERS"

definition VUE_CLICK_HANDLER_SET :: "string list" where
  "VUE_CLICK_HANDLER_SET = VUE_CLICK_HANDLERS"

definition VUE_CLICK_EVENT_NAMES :: "string list" where
  "VUE_CLICK_EVENT_NAMES = [''click'']"

definition VUE_KEYBOARD_HANDLER_SET :: "string list" where
  "VUE_KEYBOARD_HANDLER_SET = VUE_KEYBOARD_HANDLERS"

definition VUE_KEYBOARD_EVENT_NAMES :: "string list" where
  "VUE_KEYBOARD_EVENT_NAMES = [''keydown'', ''keyup'', ''keypress'']"

definition VUE_MOUSE_HANDLER_SET :: "string list" where
  "VUE_MOUSE_HANDLER_SET = VUE_MOUSE_HANDLERS"

definition VUE_MOUSE_EVENT_NAMES :: "string list" where
  "VUE_MOUSE_EVENT_NAMES =
     [''mousedown'', ''mouseup'', ''mouseover'', ''mouseout'', ''mouseenter'', ''mouseleave'']"

definition VUE_FOCUS_HANDLER_SET :: "string list" where
  "VUE_FOCUS_HANDLER_SET = VUE_FOCUS_HANDLERS"

definition VUE_FOCUS_EVENT_NAMES :: "string list" where
  "VUE_FOCUS_EVENT_NAMES = [''focus'', ''blur'']"

definition VUE_ALL_HANDLER_SET :: "string list" where
  "VUE_ALL_HANDLER_SET =
     VUE_CLICK_HANDLERS @ VUE_KEYBOARD_HANDLERS @ VUE_MOUSE_HANDLERS @ VUE_FOCUS_HANDLERS"

definition VUE_ALL_EVENT_NAMES :: "string list" where
  "VUE_ALL_EVENT_NAMES =
     VUE_CLICK_EVENT_NAMES @ VUE_KEYBOARD_EVENT_NAMES @ VUE_MOUSE_EVENT_NAMES
       @ VUE_FOCUS_EVENT_NAMES"

text \<open>
  The callback the five JSX queries give to \<open>some\<close>, with the set as a parameter:
  \<open>attr.type !== 'JSXSpreadAttribute' && attr.name?.name && SET.has(attr.name.name)\<close>.
  Under a namespaced name \<open>attr.name.name\<close> is an identifier node, which no set of
  strings holds; an empty name is falsy.
\<close>

fun jsxHandlerIn :: "string list \<Rightarrow> jsx_attribute \<Rightarrow> bool" where
  "jsxHandlerIn S (JSXSpreadAttribute e) = False"
| "jsxHandlerIn S (JSXAttribute (JSXIdentifier n) v) = (n \<noteq> [] \<and> n \<in> set S)"
| "jsxHandlerIn S (JSXAttribute (JSXNamespacedName ns n) v) = False"
| "jsxHandlerIn S (JSXAttribute (JSXMemberExpression ob p) v) = False"

definition hasJSXClickHandler :: "jsx_node \<Rightarrow> bool" where
  "hasJSXClickHandler node = list_ex (jsxHandlerIn JSX_CLICK_HANDLERS_SET) (jsx_attributes node)"

definition hasJSXKeyboardHandler :: "jsx_node \<Rightarrow> bool" where
  "hasJSXKeyboardHandler node =
     list_ex (jsxHandlerIn JSX_KEYBOARD_HANDLERS_SET) (jsx_attributes node)"

definition hasJSXMouseHandler :: "jsx_node \<Rightarrow> bool" where
  "hasJSXMouseHandler node = list_ex (jsxHandlerIn JSX_MOUSE_HANDLERS_SET) (jsx_attributes node)"

definition hasJSXFocusHandler :: "jsx_node \<Rightarrow> bool" where
  "hasJSXFocusHandler node = list_ex (jsxHandlerIn JSX_FOCUS_HANDLERS_SET) (jsx_attributes node)"

definition hasJSXEventHandler :: "jsx_node \<Rightarrow> bool" where
  "hasJSXEventHandler node = list_ex (jsxHandlerIn JSX_ALL_HANDLERS_SET) (jsx_attributes node)"

text \<open>
  The callback of \<open>hasVueEventAttribute\<close>: a plain attribute whose \<open>key.name\<close> is in the
  handler set matches; otherwise a directive named \<open>on\<close> matches when its argument has a
  (non-empty) name in the event-name set. Under a directive \<open>key.name\<close> is an identifier
  node, which no set of strings holds; under a plain attribute \<open>key.name.name\<close> is
  undefined.
\<close>

fun vueArgumentName :: "vue_argument option \<Rightarrow> string option" where
  "vueArgumentName (Some (VIdentifier a)) = Some a"
| "vueArgumentName (Some (VDynamicArgument e)) = None"
| "vueArgumentName None = None"

fun vueEventAttribute ::
  "string list \<Rightarrow> string list \<Rightarrow> vue_attribute \<Rightarrow> bool" where
  "vueEventAttribute handlerSet eventNames (VAttribute k v) = (k \<noteq> [] \<and> k \<in> set handlerSet)"
| "vueEventAttribute handlerSet eventNames (VDirective d arg v) =
     (if d = ''on''
      then (case vueArgumentName arg of
              None \<Rightarrow> False
            | Some argument \<Rightarrow> argument \<noteq> [] \<and> argument \<in> set eventNames)
      else False)"

definition hasVueEventAttribute ::
  "vue_node \<Rightarrow> string list \<Rightarrow> string list \<Rightarrow> bool" where
  "hasVueEventAttribute node handlerSet eventNames =
     list_ex (vueEventAttribute handlerSet eventNames) (vue_attributes node)"

definition hasVueClickHandler :: "vue_node \<Rightarrow> bool" where
  "hasVueClickHandler node = hasVueEventAttribute node VUE_CLICK_HANDLER_SET VUE_CLICK_EVENT_NAMES"

definition hasVueKeyboardHandler :: "vue_node \<Rightarrow> bool" where
  "hasVueKeyboardHandler node =
     hasVueEventAttribute node VUE_KEYBOARD_HANDLER_SET VUE_KEYBOARD_EVENT_NAMES"

definition hasVueMouseHandler :: "vue_node \<Rightarrow> bool" where
  "hasVueMouseHandler node = hasVueEventAttribute node VUE_MOUSE_HANDLER_SET VUE_MOUSE_EVENT_NAMES"

definition hasVueFocusHandler :: "vue_node \<Rightarrow> bool" where
  "hasVueFocusHandler node = hasVueEventAttribute node VUE_FOCUS_HANDLER_SET VUE_FOCUS_EVENT_NAMES"

definition hasVueEventHandler :: "vue_node \<Rightarrow> bool" where
  "hasVueEventHandler node = hasVueEventAttribute node VUE_ALL_HANDLER_SET VUE_ALL_EVENT_NAMES"

section \<open>Attribute lookup (utils/jsx-ast-utils.ts, utils/vue-ast-utils.ts)\<close>

text \<open>
  Modelled from the spec: \<open>hasJSXAttribute\<close> and \<open>getJSXAttribute\<close> of
  \<open>utils/jsx-ast-utils\<close>, which the rules import and the sources do not hold. The spec's
  attribute resolver answers "does attribute X exist" and returns the attribute's entry;
  a spread attribute never counts as the attribute for a name lookup. The entry found is
  the first attribute of that name.
\<close>

fun jsxAttributeNamed :: "string \<Rightarrow> jsx_attribute \<Rightarrow> bool" where
  "jsxAttributeNamed n (JSXAttribute (JSXIdentifier m) v) = (m = n)"
| "jsxAttributeNamed n (JSXAttribute (JSXNamespacedName ns m) v) = False"
| "jsxAttributeNamed n (JSXAttribute (JSXMemberExpression ob p) v) = False"
| "jsxAttributeNamed n (JSXSpreadAttribute e) = False"

definition getJSXAttribute ::
  "jsx_node \<Rightarrow> string \<Rightarrow> jsx_attribute option" where
  "getJSXAttribute node n = find (jsxAttributeNamed n) (jsx_attributes node)"

definition hasJSXAttribute :: "jsx_node \<Rightarrow> string \<Rightarrow> bool" where
  "hasJSXAttribute node n = list_ex (jsxAttributeNamed n) (jsx_attributes node)"

text \<open>
  Modelled from the spec: \<open>hasVueAttribute\<close> and \<open>getVueAttribute\<close> of
  \<open>utils/vue-ast-utils\<close>, which the rules import and the sources do not hold. A plain
  attribute is found under its name, and so is a bound one (\<open>:id="x"\<close>, the entry whose
  value the spec calls dynamic) under its argument; \<open>v-bind="obj"\<close>, the template
  dialect's spread, has no argument and is found under no name.
\<close>

fun vueAttributeNamed :: "string \<Rightarrow> vue_attribute \<Rightarrow> bool" where
  "vueAttributeNamed n (VAttribute k v) = (k = n)"
| "vueAttributeNamed n (VDirective d arg v) = (d = ''bind'' \<and> vueArgumentName arg = Some n)"

definition getVueAttribute ::
  "vue_node \<Rightarrow> string \<Rightarrow> vue_attribute option" where
  "getVueAttribute node n = find (vueAttributeNamed n) (vue_attributes node)"

definition hasVueAttribute :: "vue_node \<Rightarrow> string \<Rightarrow> bool" where
  "hasVueAttribute node n = list_ex (vueAttributeNamed n) (vue_attributes node)"

text \<open>
  What the rules read from an attribute they hold. \<open>attr.value\<close> of a JSX attribute is
  its value node or null; a spread attribute has none. \<open>attr?.value?.value\<close> is the
  literal's value under a \<open>Literal\<close> and undefined (here \<open>None\<close>) under an expression
  container or an element, which have no \<open>value\<close> field. In a template a \<open>VLiteral\<close> has
  a string under \<open>value\<close> and the expression container of a directive has none.
\<close>

fun jsxAttrValue :: "jsx_attribute \<Rightarrow> jsx_attr_value option" where
  "jsxAttrValue (JSXAttribute n v) = v"
| "jsxAttrValue (JSXSpreadAttribute e) = None"

fun jsxValueValue :: "jsx_attr_value option \<Rightarrow> literal option" where
  "jsxValueValue (Some (JSXLiteral l)) = Some l"
| "jsxValueValue (Some (JSXExpressionContainer e)) = None"
| "jsxValueValue (Some JSXElementValue) = None"
| "jsxValueValue None = None"

fun truthy :: "literal \<Rightarrow> bool" where
  "truthy (LString s) = (s \<noteq> [])"
| "truthy (LNumber n) = (n \<noteq> 0)"
| "truthy (LBool b) = b"
| "truthy LNull = False"

fun vueValueValue :: "vue_attribute option \<Rightarrow> string option" where
  "vueValueValue (Some (VAttribute k (Some s))) = Some s"
| "vueValueValue (Some (VAttribute k None)) = None"
| "vueValueValue (Some (VDirective d arg v)) = None"
| "vueValueValue None = None"

section \<open>Component resolution (utils/component-mapping.ts)\<close>

text \<open>
  Modelled from the spec: \<open>resolveNativeTag\<close>, the component-role resolver, whose module
  \<open>utils/component-mapping\<close> the sources do not hold. A mapping entry gives a component
  its native tag and, optionally, its own polymorphic prop names; the mapping carries
  the default polymorphic prop names. The table of recognised native tags is a
  parameter. The spec's algorithm: (1) a tag that is a recognised native tag is
  returned as it is; (2) otherwise the mapped native tag is the candidate; (3) the first
  attribute named by a polymorphic prop name whose value is a static string that is a
  recognised native tag or a mapped component name overrides the candidate;
  (4) otherwise the result is absent.
\<close>

datatype component_entry =
  ComponentEntry (nativeTag: string) (polymorphicPropNames: "string list option")

datatype component_mapping =
  ComponentMapping (components: "(string \<times> component_entry) list")
    (defaultPolymorphicPropNames: "string list")

fun staticString :: "jsx_attr_value option \<Rightarrow> string option" where
  "staticString (Some (JSXLiteral (LString s))) = Some s"
| "staticString (Some (JSXExpressionContainer (Literal (LString s)))) = Some s"
| "staticString v = None"

definition polymorphicNamesFor ::
  "component_mapping \<Rightarrow> string \<Rightarrow> string list" where
  "polymorphicNamesFor mapping tag =
     (case map_of (components mapping) tag of
        None \<Rightarrow> defaultPolymorphicPropNames mapping
      | Some entry \<Rightarrow>
          (case polymorphicPropNames entry of
             None \<Rightarrow> defaultPolymorphicPropNames mapping
           | Some names \<Rightarrow> names))"

fun polymorphicTarget ::
  "string list \<Rightarrow> component_mapping \<Rightarrow> string list \<Rightarrow> jsx_attribute list \<Rightarrow> string option" where
  "polymorphicTarget NATIVE_TAGS mapping names [] = None"
| "polymorphicTarget NATIVE_TAGS mapping names (JSXSpreadAttribute e # rest) =
     polymorphicTarget NATIVE_TAGS mapping names rest"
| "polymorphicTarget NATIVE_TAGS mapping names (JSXAttribute n v # rest) =
     (case (n, staticString v) of
        (JSXIdentifier m, Some s) \<Rightarrow>
          if m \<in> set names
             \<and> (s \<in> set NATIVE_TAGS \<or> map_of (components mapping) s \<noteq> None)
          then Some s
          else polymorphicTarget NATIVE_TAGS mapping names rest
      | _ \<Rightarrow> polymorphicTarget NATIVE_TAGS mapping names rest)"

definition resolveNativeTag ::
  "string list \<Rightarrow> jsx_node \<Rightarrow> component_mapping \<Rightarrow> string option" where
  "resolveNativeTag NATIVE_TAGS node mapping =
     (case jsx_name node of
        JSXIdentifier tag \<Rightarrow>
          if tag \<in> set NATIVE_TAGS then Some tag
          else
            (case polymorphicTarget NATIVE_TAGS mapping (polymorphicNamesFor mapping tag)
                    (jsx_attributes node) of
               Some s \<Rightarrow> Some s
             | None \<Rightarrow> map_option nativeTag (map_of (components mapping) tag))
      | JSXNamespacedName ns n \<Rightarrow> None
      | JSXMemberExpression ob p \<Rightarrow> None)"

text \<open>
  The mapping of the spec's example, \<open>{ "Button": { nativeTag: "button" } }\<close>: one entry
  without polymorphic prop names of its own, and the default names \<open>as\<close> and
  \<open>component\<close>.
\<close>

definition buttonMapping :: component_mapping where
  "buttonMapping =
     ComponentMapping [(''Button'', ComponentEntry ''button'' None)] [''as'', ''component'']"


section \<open>Rule form-label\<close>

text \<open>
  The callback of the rule's own search for the id attribute,
  \<open>attr.name?.name === 'id'\<close>: a spread attribute has no name, and under a namespaced
  name \<open>name.name\<close> is a node, not a string.
\<close>

fun attrNameIs :: "string \<Rightarrow> jsx_attribute \<Rightarrow> bool" where
  "attrNameIs n (JSXAttribute (JSXIdentifier m) v) = (m = n)"
| "attrNameIs n (JSXAttribute (JSXNamespacedName ns m) v) = False"
| "attrNameIs n (JSXAttribute (JSXMemberExpression ob p) v) = False"
| "attrNameIs n (JSXSpreadAttribute e) = False"

definition isFormControl :: "string \<Rightarrow> bool" where
  "isFormControl tagName =
     (tagName = ''input'' \<or> tagName = ''select'' \<or> tagName = ''textarea'')"

definition formLabel_JSXOpeningElement ::
  "(string \<Rightarrow> string) \<Rightarrow> jsx_node \<Rightarrow> report list" where
  "formLabel_JSXOpeningElement unicodeLower node =
     (case jsx_name node of
        JSXIdentifier nm \<Rightarrow>
          (let tagName = toLowerCase unicodeLower nm in
           if isFormControl tagName then
             (let hasAriaLabel = hasJSXAttribute node ''aria-label'';
                  hasAriaLabelledBy = hasJSXAttribute node ''aria-labelledby'';
                  idAttr = find (attrNameIs ''id'') (jsx_attributes node);
                  ident = (case idAttr of
                             None \<Rightarrow> None
                           | Some a \<Rightarrow> jsxValueValue (jsxAttrValue a));
                  noId = (case ident of None \<Rightarrow> True | Some l \<Rightarrow> \<not> truthy l)
              in if \<not> hasAriaLabel \<and> \<not> hasAriaLabelledBy \<and> noId
                 then [Report ''missingLabel'' []] else [])
           else [])
      | JSXNamespacedName ns n \<Rightarrow> []
      | JSXMemberExpression ob p \<Rightarrow> [])"

definition formLabel_VElement ::
  "(string \<Rightarrow> string) \<Rightarrow> vue_node \<Rightarrow> report list" where
  "formLabel_VElement unicodeLower node =
     (let tagName = toLowerCase unicodeLower (vue_name node) in
      if isFormControl tagName then
        (let hasAriaLabel = hasVueAttribute node ''aria-label'';
             hasAriaLabelledBy = hasVueAttribute node ''aria-labelledby'';
             idAttr = getVueAttribute node ''id'';
             ident = vueValueValue idAttr;
             noId = (case ident of None \<Rightarrow> True | Some s \<Rightarrow> s = [])
         in if \<not> hasAriaLabel \<and> \<not> hasAriaLabelledBy \<and> noId
            then [Report ''missingLabel'' []] else [])
      else [])"

section \<open>Rule anchor-is-valid\<close>

definition INVALID_HREFS :: "string list" where
  "INVALID_HREFS = [[], ''#'']"

definition isInvalidHref ::
  "(string \<Rightarrow> string) \<Rightarrow> string \<Rightarrow> bool" where
  "isInvalidHref unicodeLower v =
     (if v \<in> set INVALID_HREFS then True
      else if startsWith (toLowerCase unicodeLower v) ''javascript:'' then True
      else False)"

text \<open>
  \<open>isElementLike\<close> of \<open>utils/component-mapping\<close> is not among the sources; the rule takes
  it as a parameter, with the rule's context folded in. Only a literal whose value is
  a string is validated: \<open>hrefAttr.value?.type === 'Literal'\<close>.
\<close>

definition anchorIsValid_JSXOpeningElement ::
  "(string \<Rightarrow> string) \<Rightarrow> (jsx_node \<Rightarrow> string \<Rightarrow> bool) \<Rightarrow> jsx_node \<Rightarrow> report list" where
  "anchorIsValid_JSXOpeningElement unicodeLower isElementLike node =
     (case jsx_name node of
        JSXIdentifier nm \<Rightarrow>
          if nm \<noteq> ''a'' \<and> \<not> isElementLike node ''a'' then []
          else
            (case getJSXAttribute node ''href'' of
               None \<Rightarrow>
                 if hasJSXAttribute node ''onClick'' then [Report ''preferButton'' []]
                 else [Report ''missingHref'' []]
             | Some hrefAttr \<Rightarrow>
                 (case jsxAttrValue hrefAttr of
                    Some (JSXLiteral (LString hrefValue)) \<Rightarrow>
                      if isInvalidHref unicodeLower hrefValue
                      then [Report ''invalidHref'' [(''href'', hrefValue)]] else []
                  | _ \<Rightarrow> []))
      | JSXNamespacedName ns n \<Rightarrow> []
      | JSXMemberExpression ob p \<Rightarrow> [])"

fun isVueClickDirective :: "vue_attribute \<Rightarrow> bool" where
  "isVueClickDirective (VAttribute k v) = False"
| "isVueClickDirective (VDirective d arg v) =
     (d = ''on'' \<and> vueArgumentName arg = Some ''click'')"

definition anchorIsValid_VElement ::
  "(string \<Rightarrow> string) \<Rightarrow> vue_node \<Rightarrow> report list" where
  "anchorIsValid_VElement unicodeLower node =
     (if vue_name node \<noteq> ''a'' then []
      else
        (let hrefAttr = getVueAttribute node ''href'';
             hasClickHandler = list_ex isVueClickDirective (vue_attributes node)
         in case hrefAttr of
              None \<Rightarrow>
                if hasClickHandler then [Report ''preferButton'' []]
                else [Report ''missingHref'' []]
            | Some a \<Rightarrow>
                (case vueValueValue hrefAttr of
                   Some hrefValue \<Rightarrow>
                     if isInvalidHref unicodeLower hrefValue
                     then [Report ''invalidHref'' [(''href'', hrefValue)]] else []
                 | None \<Rightarrow> [])))"

section \<open>Rule no-noninteractive-element-to-interactive-role\<close>

definition NON_INTERACTIVE_ELEMENTS :: "string list" where
  "NON_INTERACTIVE_ELEMENTS =
     [''div'', ''span'', ''section'', ''article'', ''aside'', ''footer'', ''header'', ''nav'',
      ''main'', ''p'', ''ul'', ''ol'', ''li'', ''dl'', ''dt'', ''dd'',
      ''table'', ''thead'', ''tbody'', ''tfoot'', ''tr'', ''th'', ''td'', ''caption'',
      ''figure'', ''figcaption'', ''blockquote'', ''pre'', ''code'', ''em'', ''strong'',
      ''small'', ''mark'', ''sub'', ''sup'', ''address'', ''time'', ''abbr'',
      ''h1'', ''h2'', ''h3'', ''h4'', ''h5'', ''h6'',
      ''img'', ''hr'']"

definition INTERACTIVE_ROLES :: "string list" where
  "INTERACTIVE_ROLES =
     [''button'', ''link'', ''checkbox'', ''radio'', ''textbox'', ''combobox'', ''listbox'',
      ''option'', ''menuitem'', ''menuitemcheckbox'', ''menuitemradio'', ''slider'',
      ''spinbutton'', ''switch'', ''tab'', ''treeitem'', ''gridcell'', ''searchbox'',
      ''scrollbar'']"

text \<open>
  The rule has a handler list and two keyboard queries of its own, under the names the
  event utilities use; here they carry the suffix \<open>_rule\<close>. The rule's list has the
  three bubbling handlers only, and each is looked up with \<open>hasJSXAttribute\<close>.
\<close>

definition JSX_KEYBOARD_HANDLERS_rule :: "string list" where
  "JSX_KEYBOARD_HANDLERS_rule = [''onKeyDown'', ''onKeyUp'', ''onKeyPress'']"

definition hasJSXKeyboardHandler_rule :: "jsx_node \<Rightarrow> bool" where
  "hasJSXKeyboardHandler_rule node =
     list_ex (\<lambda>handler. hasJSXAttribute node handler) JSX_KEYBOARD_HANDLERS_rule"

fun isVueKeyboardDirective :: "vue_attribute \<Rightarrow> bool" where
  "isVueKeyboardDirective (VAttribute k v) = False"
| "isVueKeyboardDirective (VDirective d arg v) =
     (d = ''on'' \<and>
      (case vueArgumentName arg of
         None \<Rightarrow> False
       | Some a \<Rightarrow> a \<in> set [''keydown'', ''keyup'', ''keypress'']))"

definition hasVueKeyboardHandler_rule :: "vue_node \<Rightarrow> bool" where
  "hasVueKeyboardHandler_rule node = list_ex isVueKeyboardDirective (vue_attributes node)"

text \<open>
  The role a JSX attribute gives statically, as the rules resolve it in place: the
  lower-cased value of a string literal, bare or inside an expression container;
  otherwise null. The scope rule resolves its value by the same code.
\<close>

fun literalOrContainerLower ::
  "(string \<Rightarrow> string) \<Rightarrow> jsx_attr_value option \<Rightarrow> string option" where
  "literalOrContainerLower unicodeLower (Some (JSXLiteral (LString s))) =
     Some (toLowerCase unicodeLower s)"
| "literalOrContainerLower unicodeLower (Some (JSXExpressionContainer (Literal (LString s)))) =
     Some (toLowerCase unicodeLower s)"
| "literalOrContainerLower unicodeLower v = None"

text \<open>
  \<open>getElementRoleFromJSX\<close> of \<open>utils/component-mapping\<close> is not among the sources; the
  rule takes it as a parameter, with the rule's context folded in.
\<close>

definition noNoninteractive_JSXOpeningElement ::
  "(string \<Rightarrow> string) \<Rightarrow> (jsx_node \<Rightarrow> string option) \<Rightarrow> jsx_node \<Rightarrow> report list" where
  "noNoninteractive_JSXOpeningElement unicodeLower getElementRoleFromJSX node =
     (case getElementRoleFromJSX node of
        None \<Rightarrow> []
      | Some tagName \<Rightarrow>
          if tagName = [] \<or> tagName \<notin> set NON_INTERACTIVE_ELEMENTS then []
          else
            (case getJSXAttribute node ''role'' of
               None \<Rightarrow> []
             | Some roleAttr \<Rightarrow>
                 (case literalOrContainerLower unicodeLower (jsxAttrValue roleAttr) of
                    None \<Rightarrow> []
                  | Some role \<Rightarrow>
                      if role = [] \<or> role \<notin> set INTERACTIVE_ROLES then []
                      else
                        (let hasTabIndex = (hasJSXAttribute node ''tabIndex''
                                             \<or> hasJSXAttribute node ''tabindex'');
                             hasKeyboard = hasJSXKeyboardHandler_rule node
                         in if \<not> hasTabIndex \<or> \<not> hasKeyboard
                            then [Report ''noNoninteractiveToInteractive''
                                    [(''element'', tagName), (''role'', role)]]
                            else []))))"

definition noNoninteractive_VElement ::
  "(string \<Rightarrow> string) \<Rightarrow> vue_node \<Rightarrow> report list" where
  "noNoninteractive_VElement unicodeLower node =
     (let tagName = toLowerCase unicodeLower (vue_name node) in
      if tagName \<notin> set NON_INTERACTIVE_ELEMENTS then []
      else
        (case map_option (toLowerCase unicodeLower) (vueValueValue (getVueAttribute node ''role'')) of
           None \<Rightarrow> []
         | Some role \<Rightarrow>
             if role = [] \<or> role \<notin> set INTERACTIVE_ROLES then []
             else
               (let hasTabIndex = hasVueAttribute node ''tabindex'';
                    hasKeyboard = hasVueKeyboardHandler_rule node
                in if \<not> hasTabIndex \<or> \<not> hasKeyboard
                   then [Report ''noNoninteractiveToInteractive''
                           [(''element'', tagName), (''role'', role)]]
                   else [])))"

section \<open>Rule scope (rules/scope.ts)\<close>

definition VALID_SCOPE_VALUES :: "string list" where
  "VALID_SCOPE_VALUES = [''col'', ''row'', ''colgroup'', ''rowgroup'']"

definition scope_JSXOpeningElement ::
  "(string \<Rightarrow> string) \<Rightarrow> jsx_node \<Rightarrow> report list" where
  "scope_JSXOpeningElement unicodeLower node =
     (case jsx_name node of
        JSXIdentifier nm \<Rightarrow>
          if \<not> hasJSXAttribute node ''scope'' then []
          else
            (let tagName = toLowerCase unicodeLower nm in
             if tagName \<noteq> ''th'' then [Report ''invalidElement'' [(''element'', tagName)]]
             else
               (case getJSXAttribute node ''scope'' of
                  None \<Rightarrow> []
                | Some scopeAttr \<Rightarrow>
                    (case jsxAttrValue scopeAttr of
                       None \<Rightarrow> []
                     | Some v \<Rightarrow>
                         (case literalOrContainerLower unicodeLower (Some v) of
                            None \<Rightarrow> []
                          | Some scopeValue \<Rightarrow>
                              if scopeValue \<notin> set VALID_SCOPE_VALUES
                              then [Report ''invalidValue'' [(''value'', scopeValue)]]
                              else []))))
      | JSXNamespacedName ns n \<Rightarrow> []
      | JSXMemberExpression ob p \<Rightarrow> [])"

definition scope_VElement ::
  "(string \<Rightarrow> string) \<Rightarrow> vue_node \<Rightarrow> report list" where
  "scope_VElement unicodeLower node =
     (let tagName = toLowerCase unicodeLower (vue_name node) in
      if \<not> hasVueAttribute node ''scope'' then []
      else if tagName \<noteq> ''th'' then [Report ''invalidElement'' [(''element'', tagName)]]
      else
        (case map_option (toLowerCase unicodeLower) (vueValueValue (getVueAttribute node ''scope'')) of
           None \<Rightarrow> []
         | Some scopeValue \<Rightarrow>
             if scopeValue \<notin> set VALID_SCOPE_VALUES
             then [Report ''invalidValue'' [(''value'', scopeValue)]]
             else []))"

section \<open>Rule prefer-tag-over-role\<close>

definition ROLE_TO_TAG :: "(string \<times> string) list" where
  "ROLE_TO_TAG =
     [(''button'', ''<button>''),
      (''checkbox'', ''<input type=\"checkbox\">''),
      (''combobox'', ''<select>''),
      (''form'', ''<form>''),
      (''heading'', ''<h1>'' @ [CHR 0xE2, CHR 0x80, CHR 0x93] @ ''<h6> (with aria-level)''),
      (''img'', ''<img>''),
      (''link'', ''<a href=\"...\">''),
      (''list'', ''<ul> or <ol>''),
      (''listitem'', ''<li>''),
      (''listbox'', ''<select multiple>''),
      (''main'', ''<main>''),
      (''navigation'', ''<nav>''),
      (''complementary'', ''<aside>''),
      (''banner'', ''<header>''),
      (''contentinfo'', ''<footer>''),
      (''region'', ''<section aria-label=\"...\">''),
      (''radio'', ''<input type=\"radio\">''),
      (''searchbox'', ''<input type=\"search\">''),
      (''slider'', ''<input type=\"range\">''),
      (''spinbutton'', ''<input type=\"number\">''),
      (''table'', ''<table>''),
      (''textbox'', ''<input> or <textarea>''),
      (''meter'', ''<meter>''),
      (''progressbar'', ''<progress>''),
      (''radiogroup'', ''<fieldset>''),
      (''row'', ''<tr>''),
      (''rowgroup'', ''<thead>, <tbody>, or <tfoot>''),
      (''columnheader'', ''<th scope=\"col\">''),
      (''rowheader'', ''<th scope=\"row\">''),
      (''article'', ''<article>''),
      (''separator'', ''<hr>''),
      (''term'', ''<dt>''),
      (''definition'', ''<dd>'')]"

text \<open>
  \<open>ROLE_TO_TAG\<close> is a plain object, so a lookup also finds what the object inherits.
  A role is lower-cased before the lookup; the inherited keys without an upper-case
  letter are \<open>constructor\<close> and \<open>__proto__\<close>, both truthy, kept here as the text the
  report would print. The dash of the heading entry is U+2013, three bytes in UTF-8.
\<close>

definition INHERITED_KEYS :: "(string \<times> string) list" where
  "INHERITED_KEYS =
     [(''constructor'', ''function Object() { [native code] }''),
      (''__proto__'', ''[object Object]'')]"

definition roleToTag :: "string \<Rightarrow> string option" where
  "roleToTag role =
     (case map_of ROLE_TO_TAG role of
        Some t \<Rightarrow> Some t
      | None \<Rightarrow> map_of INHERITED_KEYS role)"

definition GENERIC_ELEMENTS :: "string list" where
  "GENERIC_ELEMENTS =
     [''div'', ''span'', ''section'', ''article'', ''aside'', ''footer'', ''header'',
      ''nav'', ''main'', ''p'', ''ul'', ''ol'', ''li'', ''dl'', ''dt'', ''dd'',
      ''figure'', ''figcaption'', ''blockquote'', ''pre'', ''i'', ''b'', ''em'',
      ''strong'', ''small'', ''mark'', ''sub'', ''sup'', ''address'']"

text \<open>
  \<open>getStaticRole\<close> on the attribute each dialect's lookup returns. On a JSX attribute:
  no value gives null; a string literal gives its lower-cased value; an expression
  container around a string literal gives that; the last test,
  \<open>typeof roleAttr.value.value === 'string'\<close>, can only hold for a string literal, which
  the first test has taken. On a template attribute the first two tests fail (the value
  is a \<open>VLiteral\<close> or a \<open>VExpressionContainer\<close>) and the last holds for a \<open>VLiteral\<close>.
\<close>

fun getStaticRole_JSX ::
  "(string \<Rightarrow> string) \<Rightarrow> jsx_attribute option \<Rightarrow> string option" where
  "getStaticRole_JSX unicodeLower None = None"
| "getStaticRole_JSX unicodeLower (Some roleAttr) =
     (case jsxAttrValue roleAttr of
        None \<Rightarrow> None
      | Some (JSXLiteral (LString s)) \<Rightarrow> Some (toLowerCase unicodeLower s)
      | Some (JSXLiteral l) \<Rightarrow> None
      | Some (JSXExpressionContainer (Literal (LString s))) \<Rightarrow> Some (toLowerCase unicodeLower s)
      | Some (JSXExpressionContainer e) \<Rightarrow> None
      | Some JSXElementValue \<Rightarrow> None)"

fun getStaticRole_Vue ::
  "(string \<Rightarrow> string) \<Rightarrow> vue_attribute option \<Rightarrow> string option" where
  "getStaticRole_Vue unicodeLower None = None"
| "getStaticRole_Vue unicodeLower (Some (VAttribute k None)) = None"
| "getStaticRole_Vue unicodeLower (Some (VAttribute k (Some s))) = Some (toLowerCase unicodeLower s)"
| "getStaticRole_Vue unicodeLower (Some (VDirective d arg None)) = None"
| "getStaticRole_Vue unicodeLower (Some (VDirective d arg (Some e))) = None"

definition preferTag_report :: "string option \<Rightarrow> report list" where
  "preferTag_report staticRole =
     (case staticRole of
        None \<Rightarrow> []
      | Some role \<Rightarrow>
          if role = [] then []
          else
            (case roleToTag role of
               None \<Rightarrow> []
             | Some preferredTag \<Rightarrow>
                 if preferredTag = [] then []
                 else [Report ''preferTag'' [(''tag'', preferredTag), (''role'', role)]]))"

definition preferTag_JSXOpeningElement ::
  "(string \<Rightarrow> string) \<Rightarrow> jsx_node \<Rightarrow> report list" where
  "preferTag_JSXOpeningElement unicodeLower node =
     (case jsx_name node of
        JSXIdentifier nm \<Rightarrow>
          if toLowerCase unicodeLower nm \<notin> set GENERIC_ELEMENTS then []
          else preferTag_report (getStaticRole_JSX unicodeLower (getJSXAttribute node ''role''))
      | JSXNamespacedName ns n \<Rightarrow> []
      | JSXMemberExpression ob p \<Rightarrow> [])"

definition preferTag_VElement ::
  "(string \<Rightarrow> string) \<Rightarrow> vue_node \<Rightarrow> report list" where
  "preferTag_VElement unicodeLower node =
     (if toLowerCase unicodeLower (vue_name node) \<notin> set GENERIC_ELEMENTS then []
      else preferTag_report (getStaticRole_Vue unicodeLower (getVueAttribute node ''role'')))"

section \<open>Properties of the event handler classifier\<close>

lemma jsxHandlerIn_append:
  "jsxHandlerIn (S @ T) a = (jsxHandlerIn S a \<or> jsxHandlerIn T a)"
  by (cases "(S, a)" rule: jsxHandlerIn.cases) auto

lemma vueEventAttribute_append:
  "vueEventAttribute (H @ H') (E @ E') a =
     (vueEventAttribute H E a \<or> vueEventAttribute H' E' a)"
  by (cases a) (auto split: option.splits)

lemma list_ex_disj: "list_ex (\<lambda>a. P a \<or> Q a) xs = (list_ex P xs \<or> list_ex Q xs)"
  by (induction xs) auto

text \<open>
  C1. For every element node of either dialect the any-handler query is the
  disjunction of the four category queries: \<open>hasJSXEventHandler\<close> is true exactly when
  one of the click, keyboard, mouse and focus queries is, and so is
  \<open>hasVueEventHandler\<close> for the four Vue queries.
\<close>

theorem any_handler_is_union:
  "hasJSXEventHandler node =
     (hasJSXClickHandler node \<or> hasJSXKeyboardHandler node
        \<or> hasJSXMouseHandler node \<or> hasJSXFocusHandler node)
   \<and> hasVueEventHandler vnode =
     (hasVueClickHandler vnode \<or> hasVueKeyboardHandler vnode
        \<or> hasVueMouseHandler vnode \<or> hasVueFocusHandler vnode)"
proof
  have "jsxHandlerIn JSX_ALL_HANDLERS_SET =
      (\<lambda>a. jsxHandlerIn JSX_CLICK_HANDLERS_SET a \<or> (jsxHandlerIn JSX_KEYBOARD_HANDLERS_SET a
         \<or> (jsxHandlerIn JSX_MOUSE_HANDLERS_SET a \<or> jsxHandlerIn JSX_FOCUS_HANDLERS_SET a)))"
    unfolding JSX_ALL_HANDLERS_SET_def JSX_CLICK_HANDLERS_SET_def JSX_KEYBOARD_HANDLERS_SET_def
      JSX_MOUSE_HANDLERS_SET_def JSX_FOCUS_HANDLERS_SET_def
    by (rule ext) (simp only: jsxHandlerIn_append)
  then show "hasJSXEventHandler node =
     (hasJSXClickHandler node \<or> hasJSXKeyboardHandler node
        \<or> hasJSXMouseHandler node \<or> hasJSXFocusHandler node)"
    unfolding hasJSXEventHandler_def hasJSXClickHandler_def hasJSXKeyboardHandler_def
      hasJSXMouseHandler_def hasJSXFocusHandler_def
    by (simp only: list_ex_disj)
next
  have "vueEventAttribute VUE_ALL_HANDLER_SET VUE_ALL_EVENT_NAMES =
      (\<lambda>a. vueEventAttribute VUE_CLICK_HANDLER_SET VUE_CLICK_EVENT_NAMES a
         \<or> (vueEventAttribute VUE_KEYBOARD_HANDLER_SET VUE_KEYBOARD_EVENT_NAMES a
         \<or> (vueEventAttribute VUE_MOUSE_HANDLER_SET VUE_MOUSE_EVENT_NAMES a
         \<or> vueEventAttribute VUE_FOCUS_HANDLER_SET VUE_FOCUS_EVENT_NAMES a)))"
    unfolding VUE_ALL_HANDLER_SET_def VUE_ALL_EVENT_NAMES_def VUE_CLICK_HANDLER_SET_def
      VUE_KEYBOARD_HANDLER_SET_def VUE_MOUSE_HANDLER_SET_def VUE_FOCUS_HANDLER_SET_def
    by (rule ext) (simp only: vueEventAttribute_append)
  then show "hasVueEventHandler vnode =
     (hasVueClickHandler vnode \<or> hasVueKeyboardHandler vnode
        \<or> hasVueMouseHandler vnode \<or> hasVueFocusHandler vnode)"
    unfolding hasVueEventHandler_def hasVueClickHandler_def hasVueKeyboardHandler_def
      hasVueMouseHandler_def hasVueFocusHandler_def hasVueEventAttribute_def
    by (simp only: list_ex_disj)
qed

lemma list_ex_middle:
  "list_ex P (pre @ x # post) = (P x \<or> list_ex P (pre @ post))"
  by (induction pre) auto

text \<open>
  C3. Within each dialect the four category name sets are pairwise disjoint: the four
  JSX handler lists, the four Vue handler lists, and the four Vue event-name sets.
\<close>

theorem handler_sets_disjoint:
  "set JSX_CLICK_HANDLERS \<inter> set JSX_KEYBOARD_HANDLERS = {}
   \<and> set JSX_CLICK_HANDLERS \<inter> set JSX_MOUSE_HANDLERS = {}
   \<and> set JSX_CLICK_HANDLERS \<inter> set JSX_FOCUS_HANDLERS = {}
   \<and> set JSX_KEYBOARD_HANDLERS \<inter> set JSX_MOUSE_HANDLERS = {}
   \<and> set JSX_KEYBOARD_HANDLERS \<inter> set JSX_FOCUS_HANDLERS = {}
   \<and> set JSX_MOUSE_HANDLERS \<inter> set JSX_FOCUS_HANDLERS = {}
   \<and> set VUE_CLICK_HANDLERS \<inter> set VUE_KEYBOARD_HANDLERS = {}
   \<and> set VUE_CLICK_HANDLERS \<inter> set VUE_MOUSE_HANDLERS = {}
   \<and> set VUE_CLICK_HANDLERS \<inter> set VUE_FOCUS_HANDLERS = {}
   \<and> set VUE_KEYBOARD_HANDLERS \<inter> set VUE_MOUSE_HANDLERS = {}
   \<and> set VUE_KEYBOARD_HANDLERS \<inter> set VUE_FOCUS_HANDLERS = {}
   \<and> set VUE_MOUSE_HANDLERS \<inter> set VUE_FOCUS_HANDLERS = {}
   \<and> set VUE_CLICK_EVENT_NAMES \<inter> set VUE_KEYBOARD_EVENT_NAMES = {}
   \<and> set VUE_CLICK_EVENT_NAMES \<inter> set VUE_MOUSE_EVENT_NAMES = {}
   \<and> set VUE_CLICK_EVENT_NAMES \<inter> set VUE_FOCUS_EVENT_NAMES = {}
   \<and> set VUE_KEYBOARD_EVENT_NAMES \<inter> set VUE_MOUSE_EVENT_NAMES = {}
   \<and> set VUE_KEYBOARD_EVENT_NAMES \<inter> set VUE_FOCUS_EVENT_NAMES = {}
   \<and> set VUE_MOUSE_EVENT_NAMES \<inter> set VUE_FOCUS_EVENT_NAMES = {}"
  unfolding JSX_CLICK_HANDLERS_def JSX_KEYBOARD_HANDLERS_def JSX_MOUSE_HANDLERS_def
    JSX_FOCUS_HANDLERS_def VUE_CLICK_HANDLERS_def VUE_KEYBOARD_HANDLERS_def
    VUE_MOUSE_HANDLERS_def VUE_FOCUS_HANDLERS_def VUE_CLICK_EVENT_NAMES_def
    VUE_KEYBOARD_EVENT_NAMES_def VUE_MOUSE_EVENT_NAMES_def VUE_FOCUS_EVENT_NAMES_def
  by simp

text \<open>
  The capture-phase names, checked over the whole table: every handler name either is
  a capture name itself, or is \<open>onMouseEnter\<close> or \<open>onMouseLeave\<close>, or stands in exactly
  the sets its capture name stands in.
\<close>

lemma capture_table:
  "list_all (\<lambda>n. suffix ''Capture'' n \<or> n = ''onMouseEnter'' \<or> n = ''onMouseLeave''
       \<or> (n \<noteq> []
          \<and> (n @ ''Capture'' \<in> set JSX_CLICK_HANDLERS_SET) = (n \<in> set JSX_CLICK_HANDLERS_SET)
          \<and> (n @ ''Capture'' \<in> set JSX_KEYBOARD_HANDLERS_SET) = (n \<in> set JSX_KEYBOARD_HANDLERS_SET)
          \<and> (n @ ''Capture'' \<in> set JSX_MOUSE_HANDLERS_SET) = (n \<in> set JSX_MOUSE_HANDLERS_SET)
          \<and> (n @ ''Capture'' \<in> set JSX_FOCUS_HANDLERS_SET) = (n \<in> set JSX_FOCUS_HANDLERS_SET)))
     JSX_ALL_HANDLERS_SET"
  by code_simp

lemma base_handler_membership:
  assumes "n \<in> set JSX_ALL_HANDLERS_SET" and "\<not> suffix ''Capture'' n"
    and "n \<noteq> ''onMouseEnter''" and "n \<noteq> ''onMouseLeave''"
  shows "(n @ ''Capture'' \<in> set JSX_CLICK_HANDLERS_SET) = (n \<in> set JSX_CLICK_HANDLERS_SET)"
    and "(n @ ''Capture'' \<in> set JSX_KEYBOARD_HANDLERS_SET) = (n \<in> set JSX_KEYBOARD_HANDLERS_SET)"
    and "(n @ ''Capture'' \<in> set JSX_MOUSE_HANDLERS_SET) = (n \<in> set JSX_MOUSE_HANDLERS_SET)"
    and "(n @ ''Capture'' \<in> set JSX_FOCUS_HANDLERS_SET) = (n \<in> set JSX_FOCUS_HANDLERS_SET)"
    and "n \<noteq> []"
  using capture_table assms unfolding list_all_iff by blast+

text \<open>
  C2, as amended. For every base handler name of a JSX category set (a name of the
  sets that does not end in \<open>Capture\<close>) other than \<open>onMouseEnter\<close> and
  \<open>onMouseLeave\<close>, the name with the suffix \<open>Capture\<close> is in the same sets, and every
  category query answers the same on an element that carries the capture name in
  place of the base name.
\<close>

theorem capture_variant_same_category:
  assumes "n \<in> set JSX_ALL_HANDLERS_SET" and "\<not> suffix ''Capture'' n"
    and "n \<noteq> ''onMouseEnter''" and "n \<noteq> ''onMouseLeave''"
  shows "(n @ ''Capture'' \<in> set JSX_CLICK_HANDLERS_SET) = (n \<in> set JSX_CLICK_HANDLERS_SET)
    \<and> (n @ ''Capture'' \<in> set JSX_KEYBOARD_HANDLERS_SET) = (n \<in> set JSX_KEYBOARD_HANDLERS_SET)
    \<and> (n @ ''Capture'' \<in> set JSX_MOUSE_HANDLERS_SET) = (n \<in> set JSX_MOUSE_HANDLERS_SET)
    \<and> (n @ ''Capture'' \<in> set JSX_FOCUS_HANDLERS_SET) = (n \<in> set JSX_FOCUS_HANDLERS_SET)
    \<and> hasJSXClickHandler
          (JSXOpeningElement t (pre @ JSXAttribute (JSXIdentifier (n @ ''Capture'')) v # post))
        = hasJSXClickHandler
          (JSXOpeningElement t (pre @ JSXAttribute (JSXIdentifier n) v # post))
    \<and> hasJSXKeyboardHandler
          (JSXOpeningElement t (pre @ JSXAttribute (JSXIdentifier (n @ ''Capture'')) v # post))
        = hasJSXKeyboardHandler
          (JSXOpeningElement t (pre @ JSXAttribute (JSXIdentifier n) v # post))
    \<and> hasJSXMouseHandler
          (JSXOpeningElement t (pre @ JSXAttribute (JSXIdentifier (n @ ''Capture'')) v # post))
        = hasJSXMouseHandler
          (JSXOpeningElement t (pre @ JSXAttribute (JSXIdentifier n) v # post))
    \<and> hasJSXFocusHandler
          (JSXOpeningElement t (pre @ JSXAttribute (JSXIdentifier (n @ ''Capture'')) v # post))
        = hasJSXFocusHandler
          (JSXOpeningElement t (pre @ JSXAttribute (JSXIdentifier n) v # post))"
proof -
  note m = base_handler_membership [OF assms]
  have ne: "n \<noteq> []" by (rule m(5))
  have q: "jsxHandlerIn S (JSXAttribute (JSXIdentifier (n @ ''Capture'')) v)
      = jsxHandlerIn S (JSXAttribute (JSXIdentifier n) v)"
    if "(n @ ''Capture'' \<in> set S) = (n \<in> set S)" for S
    using that ne by simp
  show ?thesis
    unfolding hasJSXClickHandler_def hasJSXKeyboardHandler_def hasJSXMouseHandler_def
      hasJSXFocusHandler_def
    by (simp only: m(1-4) q [OF m(1)] q [OF m(2)] q [OF m(3)] q [OF m(4)] list_ex_middle
        jsx_node.sel simp_thms)
qed

theorem capture_variant_same_category_witness:
  "''onKeyDown'' \<in> set JSX_ALL_HANDLERS_SET \<and> \<not> suffix ''Capture'' ''onKeyDown''
   \<and> ''onKeyDownCapture'' \<in> set JSX_KEYBOARD_HANDLERS_SET
   \<and> hasJSXKeyboardHandler
        (JSXOpeningElement (JSXIdentifier ''div'')
           [JSXAttribute (JSXIdentifier ''onKeyDownCapture'')
              (Some (JSXExpressionContainer (Dynamic ''fn'')))])
   \<and> hasJSXKeyboardHandler
        (JSXOpeningElement (JSXIdentifier ''div'')
           [JSXAttribute (JSXIdentifier ''onKeyDown'')
              (Some (JSXExpressionContainer (Dynamic ''fn'')))])"
proof -
  have a: "''onKeyDown'' \<in> set JSX_ALL_HANDLERS_SET"
    by (simp add: JSX_ALL_HANDLERS_SET_def JSX_KEYBOARD_HANDLERS_def)
  have b: "\<not> suffix ''Capture'' ''onKeyDown''"
    by (simp add: suffix_to_prefix)
  have c: "''onKeyDown'' \<in> set JSX_KEYBOARD_HANDLERS_SET"
    by (simp add: JSX_KEYBOARD_HANDLERS_SET_def JSX_KEYBOARD_HANDLERS_def)
  have d: "hasJSXKeyboardHandler
        (JSXOpeningElement (JSXIdentifier ''div'')
           [JSXAttribute (JSXIdentifier ''onKeyDown'')
              (Some (JSXExpressionContainer (Dynamic ''fn'')))])"
    by (simp add: hasJSXKeyboardHandler_def c)
  from capture_variant_same_category [OF a b, of "JSXIdentifier ''div''" "[]"
      "Some (JSXExpressionContainer (Dynamic ''fn''))" "[]"] a b c d
  show ?thesis by simp
qed

text \<open>
  C2, as stated, fails for the two mouse handlers without a capture name in the table:
  \<open>onMouseEnter\<close> is a mouse handler name and \<open>onMouseEnterCapture\<close> is not, so the mouse
  query answers differently on the two elements.
\<close>

theorem mouse_enter_capture_counterexample:
  "''onMouseEnter'' \<in> set JSX_MOUSE_HANDLERS
   \<and> ''onMouseEnter'' @ ''Capture'' \<notin> set JSX_MOUSE_HANDLERS
   \<and> hasJSXMouseHandler
        (JSXOpeningElement (JSXIdentifier ''div'')
           [JSXAttribute (JSXIdentifier ''onMouseEnter'')
              (Some (JSXExpressionContainer (Dynamic ''fn'')))])
   \<and> \<not> hasJSXMouseHandler
        (JSXOpeningElement (JSXIdentifier ''div'')
           [JSXAttribute (JSXIdentifier (''onMouseEnter'' @ ''Capture''))
              (Some (JSXExpressionContainer (Dynamic ''fn'')))])"
  by (simp add: hasJSXMouseHandler_def JSX_MOUSE_HANDLERS_SET_def JSX_MOUSE_HANDLERS_def)

section \<open>Properties of the component resolver\<close>

text \<open>
  C4. Given the mapping \<open>{ "Button": { nativeTag: "button" } }\<close>, the resolver returns
  \<open>a\<close> for \<open><Button as="a">\<close>, the polymorphic prop overriding the mapped tag, and
  \<open>button\<close> for \<open><Button>\<close> without a polymorphic prop; \<open>a\<close> is a recognised native tag
  and \<open>Button\<close> is not.
\<close>

theorem polymorphic_override:
  assumes "''a'' \<in> set NATIVE_TAGS" and "''Button'' \<notin> set NATIVE_TAGS"
  shows "resolveNativeTag NATIVE_TAGS
           (JSXOpeningElement (JSXIdentifier ''Button'')
              [JSXAttribute (JSXIdentifier ''as'') (Some (JSXLiteral (LString ''a'')))])
           buttonMapping = Some ''a''
       \<and> resolveNativeTag NATIVE_TAGS
           (JSXOpeningElement (JSXIdentifier ''Button'') []) buttonMapping = Some ''button''"
  using assms
  by (simp add: resolveNativeTag_def buttonMapping_def polymorphicNamesFor_def)

theorem polymorphic_override_witness:
  "''a'' \<in> set [''a'', ''button'', ''div''] \<and> ''Button'' \<notin> set [''a'', ''button'', ''div'']
   \<and> resolveNativeTag [''a'', ''button'', ''div'']
           (JSXOpeningElement (JSXIdentifier ''Button'')
              [JSXAttribute (JSXIdentifier ''as'') (Some (JSXLiteral (LString ''a'')))])
           buttonMapping = Some ''a''
   \<and> resolveNativeTag [''a'', ''button'', ''div'']
           (JSXOpeningElement (JSXIdentifier ''Button'') []) buttonMapping = Some ''button''"
proof -
  have a: "''a'' \<in> set [''a'', ''button'', ''div'']" by simp
  have b: "''Button'' \<notin> set [''a'', ''button'', ''div'']" by simp
  from polymorphic_override [OF a b] a b show ?thesis by simp
qed

section \<open>Properties of the attribute lookup and of the rules\<close>

text \<open>Lower-casing of the strings the examples use, and facts about the lookups.\<close>

lemma ascii_lower:
  "list_all isAscii s \<Longrightarrow> map toLowerChar s = t \<Longrightarrow> toLowerCase U s = t"
  by (simp add: toLowerCase_def)

lemma lower_input: "toLowerCase U ''input'' = ''input''"
  by (rule ascii_lower; code_simp)

lemma lower_th: "toLowerCase U ''th'' = ''th''"
  by (rule ascii_lower; code_simp)

lemma lower_td: "toLowerCase U ''td'' = ''td''"
  by (rule ascii_lower; code_simp)

lemma lower_div: "toLowerCase U ''div'' = ''div''"
  by (rule ascii_lower; code_simp)

lemma lower_button: "toLowerCase U ''button'' = ''button''"
  by (rule ascii_lower; code_simp)

lemma lower_col: "toLowerCase U ''col'' = ''col''"
  by (rule ascii_lower; code_simp)

lemma lower_column: "toLowerCase U ''column'' = ''column''"
  by (rule ascii_lower; code_simp)

lemma find_middle: "\<not> P x \<Longrightarrow> find P (pre @ x # post) = find P (pre @ post)"
  by (induction pre) auto

lemma list_ex_find: "list_ex P xs = (find P xs \<noteq> None)"
  by (induction xs) auto

lemma hasJSXAttribute_get: "hasJSXAttribute node n = (getJSXAttribute node n \<noteq> None)"
  by (simp add: hasJSXAttribute_def getJSXAttribute_def list_ex_find)

lemma hasVueAttribute_get: "hasVueAttribute node n = (getVueAttribute node n \<noteq> None)"
  by (simp add: hasVueAttribute_def getVueAttribute_def list_ex_find)

lemma attrNameIs_eq: "attrNameIs n = jsxAttributeNamed n"
proof
  fix a show "attrNameIs n a = jsxAttributeNamed n a"
    by (cases "(n, a)" rule: attrNameIs.cases) auto
qed

lemma find_attrNameIs: "find (attrNameIs n) (jsx_attributes node) = getJSXAttribute node n"
  by (simp add: getJSXAttribute_def attrNameIs_eq)

text \<open>
  C6. A spread attribute never counts as attribute presence: \<open>hasJSXAttribute\<close> is false
  for \<open>aria-label\<close> on \<open><input {...props} />\<close>; a spread anywhere among the attributes
  changes neither a name lookup nor the click-handler query; the form-label rule
  reports \<open>missingLabel\<close> for the template element \<open><input v-bind="attrs">\<close>; and a
  \<open>v-bind\<close> spread anywhere among the attributes of a template element never changes the
  rule's report.
\<close>

theorem spread_never_counts:
  "hasJSXAttribute (JSXOpeningElement (JSXIdentifier ''input'') [JSXSpreadAttribute props])
       ''aria-label'' = False
   \<and> hasJSXAttribute (JSXOpeningElement t (pre @ JSXSpreadAttribute e # post)) n
       = hasJSXAttribute (JSXOpeningElement t (pre @ post)) n
   \<and> getJSXAttribute (JSXOpeningElement t (pre @ JSXSpreadAttribute e # post)) n
       = getJSXAttribute (JSXOpeningElement t (pre @ post)) n
   \<and> hasJSXClickHandler (JSXOpeningElement t (pre @ JSXSpreadAttribute e # post))
       = hasJSXClickHandler (JSXOpeningElement t (pre @ post))
   \<and> formLabel_VElement U (VElement ''input'' [VDirective ''bind'' None (Some attrs)])
       = [Report ''missingLabel'' []]
   \<and> formLabel_VElement U (VElement tag (vpre @ VDirective ''bind'' None ve # vpost))
       = formLabel_VElement U (VElement tag (vpre @ vpost))"
proof (intro conjI)
  show "hasJSXAttribute (JSXOpeningElement (JSXIdentifier ''input'') [JSXSpreadAttribute props])
       ''aria-label'' = False"
    by (simp add: hasJSXAttribute_def)
  show "hasJSXAttribute (JSXOpeningElement t (pre @ JSXSpreadAttribute e # post)) n
       = hasJSXAttribute (JSXOpeningElement t (pre @ post)) n"
    by (simp add: hasJSXAttribute_def list_ex_middle)
  show "getJSXAttribute (JSXOpeningElement t (pre @ JSXSpreadAttribute e # post)) n
       = getJSXAttribute (JSXOpeningElement t (pre @ post)) n"
    by (simp add: getJSXAttribute_def find_middle)
  show "hasJSXClickHandler (JSXOpeningElement t (pre @ JSXSpreadAttribute e # post))
       = hasJSXClickHandler (JSXOpeningElement t (pre @ post))"
    by (simp add: hasJSXClickHandler_def list_ex_middle)
  show "formLabel_VElement U (VElement ''input'' [VDirective ''bind'' None (Some attrs)])
       = [Report ''missingLabel'' []]"
    by (simp add: formLabel_VElement_def lower_input isFormControl_def hasVueAttribute_def
        getVueAttribute_def)
  show "formLabel_VElement U (VElement tag (vpre @ VDirective ''bind'' None ve # vpost))
       = formLabel_VElement U (VElement tag (vpre @ vpost))"
    by (simp add: formLabel_VElement_def hasVueAttribute_def getVueAttribute_def
        list_ex_middle find_middle)
qed

lemma jsx_id_absent_or_falsy:
  "(case (case getJSXAttribute node ''id'' of
            None \<Rightarrow> None
          | Some a \<Rightarrow> jsxValueValue (jsxAttrValue a)) of
      None \<Rightarrow> True
    | Some l \<Rightarrow> \<not> truthy l)
   = (\<not> (\<exists>an l. getJSXAttribute node ''id'' = Some (JSXAttribute an (Some (JSXLiteral l)))
              \<and> truthy l))"
proof (cases "getJSXAttribute node ''id''")
  case None
  then show ?thesis by simp
next
  case (Some a)
  show ?thesis
  proof (cases a)
    case (JSXAttribute an v)
    then show ?thesis
      using Some by (cases v rule: jsxValueValue.cases) auto
  next
    case (JSXSpreadAttribute e)
    then show ?thesis using Some by simp
  qed
qed

lemma vue_id_absent_or_empty:
  "(case vueValueValue (getVueAttribute node ''id'') of None \<Rightarrow> True | Some s \<Rightarrow> s = [])
   = (\<not> (\<exists>k s. getVueAttribute node ''id'' = Some (VAttribute k (Some s)) \<and> s \<noteq> []))"
  by (cases "getVueAttribute node ''id''" rule: vueValueValue.cases) auto

text \<open>
  What the form-label rule does, on every element whose lower-cased tag is \<open>input\<close>,
  \<open>select\<close> or \<open>textarea\<close>: it reports \<open>missingLabel\<close> exactly when the element has no
  \<open>aria-label\<close> attribute, no \<open>aria-labelledby\<close> attribute, and the first \<open>id\<close> attribute
  does not have a truthy literal as its value node (a non-empty \<open>VLiteral\<close> in a
  template).
\<close>

lemma form_label_reports:
  assumes "toLowerCase U nm \<in> {''input'', ''select'', ''textarea''}"
    and "toLowerCase U tag \<in> {''input'', ''select'', ''textarea''}"
  shows "formLabel_JSXOpeningElement U (JSXOpeningElement (JSXIdentifier nm) attrs) =
       (if hasJSXAttribute (JSXOpeningElement (JSXIdentifier nm) attrs) ''aria-label''
           \<or> hasJSXAttribute (JSXOpeningElement (JSXIdentifier nm) attrs) ''aria-labelledby''
           \<or> (\<exists>an l. getJSXAttribute (JSXOpeningElement (JSXIdentifier nm) attrs) ''id''
                         = Some (JSXAttribute an (Some (JSXLiteral l))) \<and> truthy l)
        then [] else [Report ''missingLabel'' []])
     \<and> formLabel_VElement U (VElement tag vattrs) =
       (if hasVueAttribute (VElement tag vattrs) ''aria-label''
           \<or> hasVueAttribute (VElement tag vattrs) ''aria-labelledby''
           \<or> (\<exists>k s. getVueAttribute (VElement tag vattrs) ''id''
                         = Some (VAttribute k (Some s)) \<and> s \<noteq> [])
        then [] else [Report ''missingLabel'' []])"
proof
  let ?node = "JSXOpeningElement (JSXIdentifier nm) attrs"
  have c: "isFormControl (toLowerCase U nm)"
    using assms(1) by (auto simp: isFormControl_def)
  have f: "find (attrNameIs ''id'') attrs = getJSXAttribute ?node ''id''"
    using find_attrNameIs [of "''id''" ?node] by simp
  show "formLabel_JSXOpeningElement U ?node =
       (if hasJSXAttribute ?node ''aria-label'' \<or> hasJSXAttribute ?node ''aria-labelledby''
           \<or> (\<exists>an l. getJSXAttribute ?node ''id''
                         = Some (JSXAttribute an (Some (JSXLiteral l))) \<and> truthy l)
        then [] else [Report ''missingLabel'' []])"
    unfolding formLabel_JSXOpeningElement_def Let_def
    by (simp only: jsx_node.sel jsx_name.case c f jsx_id_absent_or_falsy if_True) auto
next
  let ?node = "VElement tag vattrs"
  have c: "isFormControl (toLowerCase U tag)"
    using assms(2) by (auto simp: isFormControl_def)
  show "formLabel_VElement U ?node =
       (if hasVueAttribute ?node ''aria-label'' \<or> hasVueAttribute ?node ''aria-labelledby''
           \<or> (\<exists>k s. getVueAttribute ?node ''id'' = Some (VAttribute k (Some s)) \<and> s \<noteq> [])
        then [] else [Report ''missingLabel'' []])"
    unfolding formLabel_VElement_def Let_def
    by (simp only: vue_node.sel c vue_id_absent_or_empty if_True) auto
qed

text \<open>
  C10. The claim holds where the \<open>id\<close> is written as a string literal: \<open><input id="email" />\<close>
  is not reported, and \<open><input id="" />\<close> is. The code departs from it at
  \<open><input id={"email"} />\<close>: the element has an \<open>id\<close> attribute with the truthy literal value
  \<open>email\<close>, which the claim says suppresses the report, and the rule reports
  \<open>missingLabel\<close>. The rule reads \<open>idAttr?.value?.value\<close> without looking at the type of the
  value node, and an expression container has no \<open>value\<close> field; the rule's comments say
  that an \<open>id\<close>, if present, is a labelling mechanism.
\<close>

theorem container_id_reported:
  "formLabel_JSXOpeningElement U
     (JSXOpeningElement (JSXIdentifier ''input'')
        [JSXAttribute (JSXIdentifier ''id'') (Some (JSXLiteral (LString ''email'')))]) = []
   \<and> formLabel_JSXOpeningElement U
     (JSXOpeningElement (JSXIdentifier ''input'')
        [JSXAttribute (JSXIdentifier ''id'') (Some (JSXLiteral (LString [])))])
     = [Report ''missingLabel'' []]
   \<and> staticString (Some (JSXExpressionContainer (Literal (LString ''email'')))) = Some ''email''
   \<and> truthy (LString ''email'')
   \<and> formLabel_JSXOpeningElement U
     (JSXOpeningElement (JSXIdentifier ''input'')
        [JSXAttribute (JSXIdentifier ''id'')
           (Some (JSXExpressionContainer (Literal (LString ''email''))))])
     = [Report ''missingLabel'' []]"
  by (simp add: formLabel_JSXOpeningElement_def lower_input isFormControl_def
      hasJSXAttribute_def getJSXAttribute_def)

lemma literalOrContainerLower_static:
  "v = JSXLiteral (LString s) \<or> v = JSXExpressionContainer (Literal (LString s))
   \<Longrightarrow> literalOrContainerLower U (Some v) = Some (toLowerCase U s)"
  by auto

lemma literalOrContainerLower_dynamic:
  assumes "\<And>s. v \<noteq> Some (JSXLiteral (LString s))"
    and "\<And>s. v \<noteq> Some (JSXExpressionContainer (Literal (LString s)))"
  shows "literalOrContainerLower U v = None"
  using assms by (cases "(U, v)" rule: literalOrContainerLower.cases) auto

lemma getStaticRole_JSX_dynamic:
  assumes "\<And>s. v \<noteq> Some (JSXLiteral (LString s))"
    and "\<And>s. v \<noteq> Some (JSXExpressionContainer (Literal (LString s)))"
  shows "getStaticRole_JSX U (Some (JSXAttribute an v)) = None"
proof (cases v)
  case None
  then show ?thesis by simp
next
  case (Some x)
  show ?thesis
  proof (cases x)
    case (JSXLiteral l)
    then show ?thesis using Some assms(1) by (cases l) auto
  next
    case (JSXExpressionContainer e)
    show ?thesis
    proof (cases e)
      case (Literal l)
      then show ?thesis using Some JSXExpressionContainer assms(2) by (cases l) auto
    next
      case (Dynamic src)
      then show ?thesis using Some JSXExpressionContainer by simp
    qed
  next
    case JSXElementValue
    then show ?thesis using Some by simp
  qed
qed

lemma vueValueValue_not_literal:
  assumes "\<And>k s. a \<noteq> VAttribute k (Some s)"
  shows "vueValueValue (Some a) = None"
  using assms by (cases "Some a" rule: vueValueValue.cases) auto

lemma getStaticRole_Vue_not_literal:
  assumes "\<And>k s. a \<noteq> VAttribute k (Some s)"
  shows "getStaticRole_Vue U (Some a) = None"
  using assms by (cases "(U, Some a)" rule: getStaticRole_Vue.cases) auto

text \<open>
  The part of the claim on unresolved values that the code keeps: for a \<open>scope\<close>
  attribute whose value is not a static string literal the scope rule reports no
  \<open>invalidValue\<close>, whatever the data, and for a \<open>role\<close> attribute with such a value
  prefer-tag-over-role reports nothing. In JSX such a value is anything but a string
  literal, bare or inside an expression container; in a template it is anything but a
  plain attribute with a \<open>VLiteral\<close>.
\<close>

lemma unresolved_value_not_reported:
  assumes "\<And>s. v \<noteq> Some (JSXLiteral (LString s))"
    and "\<And>s. v \<noteq> Some (JSXExpressionContainer (Literal (LString s)))"
    and "\<And>k s. a \<noteq> VAttribute k (Some s)"
  shows "(getJSXAttribute node ''scope'' = Some (JSXAttribute an v)
          \<longrightarrow> Report ''invalidValue'' d \<notin> set (scope_JSXOpeningElement U node))
       \<and> (getVueAttribute vnode ''scope'' = Some a
          \<longrightarrow> Report ''invalidValue'' d \<notin> set (scope_VElement U vnode))
       \<and> (getJSXAttribute node ''role'' = Some (JSXAttribute an v)
          \<longrightarrow> preferTag_JSXOpeningElement U node = [])
       \<and> (getVueAttribute vnode ''role'' = Some a
          \<longrightarrow> preferTag_VElement U vnode = [])"
proof (intro conjI impI)
  assume g: "getJSXAttribute node ''scope'' = Some (JSXAttribute an v)"
  have "literalOrContainerLower U v = None"
    by (rule literalOrContainerLower_dynamic [OF assms(1) assms(2)])
  then show "Report ''invalidValue'' d \<notin> set (scope_JSXOpeningElement U node)"
    using g
    by (auto simp: scope_JSXOpeningElement_def Let_def split: jsx_name.splits option.splits)
next
  assume g: "getVueAttribute vnode ''scope'' = Some a"
  have "vueValueValue (Some a) = None"
    by (rule vueValueValue_not_literal [OF assms(3)])
  then show "Report ''invalidValue'' d \<notin> set (scope_VElement U vnode)"
    using g by (auto simp: scope_VElement_def Let_def)
next
  assume g: "getJSXAttribute node ''role'' = Some (JSXAttribute an v)"
  have "getStaticRole_JSX U (Some (JSXAttribute an v)) = None"
    by (rule getStaticRole_JSX_dynamic [OF assms(1) assms(2)])
  then show "preferTag_JSXOpeningElement U node = []"
    using g
    by (auto simp: preferTag_JSXOpeningElement_def preferTag_report_def split: jsx_name.splits)
next
  assume g: "getVueAttribute vnode ''role'' = Some a"
  have "getStaticRole_Vue U (Some a) = None"
    by (rule getStaticRole_Vue_not_literal [OF assms(3)])
  then show "preferTag_VElement U vnode = []"
    using g by (auto simp: preferTag_VElement_def preferTag_report_def)
qed

text \<open>
  C9. The claim is general: a rule must treat a value it cannot resolve as unknown,
  never as absent. The form-label rule breaks it. \<open><input id={inputId} />\<close> has an \<open>id\<close>
  whose value is an expression, and the rule reports \<open>missingLabel\<close> for it exactly as it
  does for \<open><input />\<close> without an \<open>id\<close>, although an \<open>id\<close> with a literal value suppresses
  the report; the same in a template for \<open><input :id="inputId">\<close>. The unresolved value
  is read as absent.
\<close>

theorem dynamic_id_read_as_absent:
  "formLabel_JSXOpeningElement U
     (JSXOpeningElement (JSXIdentifier ''input'')
        [JSXAttribute (JSXIdentifier ''id'')
           (Some (JSXExpressionContainer (Dynamic ''inputId'')))])
     = [Report ''missingLabel'' []]
   \<and> formLabel_JSXOpeningElement U (JSXOpeningElement (JSXIdentifier ''input'') [])
     = [Report ''missingLabel'' []]
   \<and> formLabel_JSXOpeningElement U
     (JSXOpeningElement (JSXIdentifier ''input'')
        [JSXAttribute (JSXIdentifier ''id'') (Some (JSXLiteral (LString ''email'')))]) = []
   \<and> formLabel_VElement U
     (VElement ''input'' [VDirective ''bind'' (Some (VIdentifier ''id'')) (Some ''inputId'')])
     = [Report ''missingLabel'' []]
   \<and> formLabel_VElement U (VElement ''input'' []) = [Report ''missingLabel'' []]
   \<and> formLabel_VElement U (VElement ''input'' [VAttribute ''id'' (Some ''email'')]) = []"
  by (simp add: formLabel_JSXOpeningElement_def formLabel_VElement_def lower_input
      isFormControl_def hasJSXAttribute_def getJSXAttribute_def hasVueAttribute_def
      getVueAttribute_def)

lemma isInvalidHref_iff:
  "isInvalidHref U s = (s = [] \<or> s = ''#'' \<or> prefix ''javascript:'' (toLowerCase U s))"
  by (simp add: isInvalidHref_def INVALID_HREFS_def startsWith_def)

text \<open>
  C8, as amended. For every \<open><a>\<close> element whose \<open>href\<close> attribute has a string literal
  written directly as its value (\<open>href="..."\<close>) that is empty, is \<open>#\<close>, or, lower-cased,
  begins with \<open>javascript:\<close>, the anchor-is-valid rule reports \<open>invalidHref\<close> once, with
  that value, unchanged, as \<open>href\<close> in its data; in both dialects, and whatever
  \<open>isElementLike\<close> answers. For every JSX element whose \<open>href\<close> attribute has an expression
  container as its value the rule reports nothing, whatever the container holds. The
  instances after the theorem are \<open><a href="javascript:void(0)">\<close> and \<open><a href={"#"}>\<close>.
\<close>

theorem anchor_invalid_href_reported:
  assumes "s = [] \<or> s = ''#'' \<or> prefix ''javascript:'' (toLowerCase U s)"
  shows "(getJSXAttribute (JSXOpeningElement (JSXIdentifier ''a'') attrs) ''href''
            = Some (JSXAttribute an (Some (JSXLiteral (LString s))))
          \<longrightarrow> anchorIsValid_JSXOpeningElement U isElementLike
                (JSXOpeningElement (JSXIdentifier ''a'') attrs)
              = [Report ''invalidHref'' [(''href'', s)]])
       \<and> (getVueAttribute (VElement ''a'' vattrs) ''href'' = Some (VAttribute k (Some s))
          \<longrightarrow> anchorIsValid_VElement U (VElement ''a'' vattrs)
              = [Report ''invalidHref'' [(''href'', s)]])
       \<and> (getJSXAttribute node ''href'' = Some (JSXAttribute cn (Some (JSXExpressionContainer e)))
          \<longrightarrow> anchorIsValid_JSXOpeningElement U isElementLike node = [])"
proof (intro conjI impI)
  assume "getJSXAttribute (JSXOpeningElement (JSXIdentifier ''a'') attrs) ''href''
            = Some (JSXAttribute an (Some (JSXLiteral (LString s))))"
  then show "anchorIsValid_JSXOpeningElement U isElementLike
                (JSXOpeningElement (JSXIdentifier ''a'') attrs)
              = [Report ''invalidHref'' [(''href'', s)]]"
    using assms by (simp add: anchorIsValid_JSXOpeningElement_def isInvalidHref_iff)
next
  assume "getVueAttribute (VElement ''a'' vattrs) ''href'' = Some (VAttribute k (Some s))"
  then show "anchorIsValid_VElement U (VElement ''a'' vattrs)
              = [Report ''invalidHref'' [(''href'', s)]]"
    using assms by (simp add: anchorIsValid_VElement_def isInvalidHref_iff Let_def)
next
  assume "getJSXAttribute node ''href''
            = Some (JSXAttribute cn (Some (JSXExpressionContainer e)))"
  then show "anchorIsValid_JSXOpeningElement U isElementLike node = []"
    by (simp add: anchorIsValid_JSXOpeningElement_def split: jsx_name.splits)
qed

theorem anchor_invalid_href_reported_witness:
  "prefix ''javascript:'' (toLowerCase id ''javascript:void(0)'')
   \<and> anchorIsValid_JSXOpeningElement id (\<lambda>node t. False)
        (JSXOpeningElement (JSXIdentifier ''a'')
           [JSXAttribute (JSXIdentifier ''href'') (Some (JSXLiteral (LString ''javascript:void(0)'')))])
        = [Report ''invalidHref'' [(''href'', ''javascript:void(0)'')]]
   \<and> anchorIsValid_VElement id (VElement ''a'' [VAttribute ''href'' (Some ''javascript:void(0)'')])
        = [Report ''invalidHref'' [(''href'', ''javascript:void(0)'')]]
   \<and> anchorIsValid_JSXOpeningElement id (\<lambda>node t. False)
        (JSXOpeningElement (JSXIdentifier ''a'')
           [JSXAttribute (JSXIdentifier ''href'')
              (Some (JSXExpressionContainer (Literal (LString ''#''))))])
        = []"
proof -
  have l: "toLowerCase id ''javascript:void(0)'' = ''javascript:void(0)''"
    by (rule ascii_lower; code_simp)
  have t: "prefix ''javascript:'' (toLowerCase id ''javascript:void(0)'')"
    unfolding l by simp
  then have h: "''javascript:void(0)'' = [] \<or> ''javascript:void(0)'' = ''#''
      \<or> prefix ''javascript:'' (toLowerCase id ''javascript:void(0)'')"
    by simp
  show ?thesis
    using t anchor_invalid_href_reported [OF h,
        where attrs = "[JSXAttribute (JSXIdentifier ''href'')
                          (Some (JSXLiteral (LString ''javascript:void(0)'')))]"
          and an = "JSXIdentifier ''href''" and isElementLike = "\<lambda>node t. False"
          and vattrs = "[VAttribute ''href'' (Some ''javascript:void(0)'')]" and k = "''href''"
          and node = "JSXOpeningElement (JSXIdentifier ''a'')
                        [JSXAttribute (JSXIdentifier ''href'')
                           (Some (JSXExpressionContainer (Literal (LString ''#''))))]"
          and cn = "JSXIdentifier ''href''" and e = "Literal (LString ''#'')"]
    by (simp add: getJSXAttribute_def getVueAttribute_def)
qed

text \<open>
  C8, as stated, fails for a string given through an expression container. In
  \<open><a href={"#"}>\<close> the \<open>href\<close> attribute has the static string value \<open>#\<close>, and the rule
  reports nothing: it validates a value only when the value node itself is a literal.
\<close>

theorem container_href_counterexample:
  "getJSXAttribute
     (JSXOpeningElement (JSXIdentifier ''a'')
        [JSXAttribute (JSXIdentifier ''href'')
           (Some (JSXExpressionContainer (Literal (LString ''#''))))]) ''href''
     = Some (JSXAttribute (JSXIdentifier ''href'')
           (Some (JSXExpressionContainer (Literal (LString ''#'')))))
   \<and> staticString (Some (JSXExpressionContainer (Literal (LString ''#'')))) = Some ''#''
   \<and> anchorIsValid_JSXOpeningElement id (\<lambda>node t. False)
     (JSXOpeningElement (JSXIdentifier ''a'')
        [JSXAttribute (JSXIdentifier ''href'')
           (Some (JSXExpressionContainer (Literal (LString ''#''))))]) = []"
  by (simp add: anchorIsValid_JSXOpeningElement_def getJSXAttribute_def)

text \<open>
  C7, as amended. The scope rule reports \<open>invalidElement\<close> for every element with an
  identifier as tag that carries a \<open>scope\<close> attribute and whose lower-cased tag is not
  \<open>th\<close>, whatever the attribute's value; it reports nothing for a JSX element whose tag
  is a member expression or a namespaced name, whatever its attributes; and it reports
  \<open>invalidValue\<close>, with the lower-cased value in its data, for every \<open>th\<close> whose \<open>scope\<close>
  attribute has a static string value (a string literal, in JSX bare or inside an
  expression container) which, lower-cased, is none of \<open>col\<close>, \<open>row\<close>, \<open>colgroup\<close>,
  \<open>rowgroup\<close>; in both dialects (a template element's tag is always a string). The
  instances after the theorem are \<open><td scope="col">\<close> and \<open><th scope="column">\<close>.
\<close>

theorem scope_rule_reports:
  "(hasJSXAttribute (JSXOpeningElement (JSXIdentifier nm) attrs) ''scope''
      \<and> toLowerCase U nm \<noteq> ''th''
    \<longrightarrow> scope_JSXOpeningElement U (JSXOpeningElement (JSXIdentifier nm) attrs)
        = [Report ''invalidElement'' [(''element'', toLowerCase U nm)]])
   \<and> scope_JSXOpeningElement U (JSXOpeningElement (JSXMemberExpression ob p) attrs) = []
   \<and> scope_JSXOpeningElement U (JSXOpeningElement (JSXNamespacedName ns ln) attrs) = []
   \<and> (toLowerCase U nm = ''th''
      \<and> getJSXAttribute (JSXOpeningElement (JSXIdentifier nm) attrs) ''scope''
          = Some (JSXAttribute an (Some v))
      \<and> (v = JSXLiteral (LString s) \<or> v = JSXExpressionContainer (Literal (LString s)))
      \<and> toLowerCase U s \<notin> {''col'', ''row'', ''colgroup'', ''rowgroup''}
    \<longrightarrow> scope_JSXOpeningElement U (JSXOpeningElement (JSXIdentifier nm) attrs)
        = [Report ''invalidValue'' [(''value'', toLowerCase U s)]])
   \<and> (hasVueAttribute (VElement tag vattrs) ''scope'' \<and> toLowerCase U tag \<noteq> ''th''
    \<longrightarrow> scope_VElement U (VElement tag vattrs)
        = [Report ''invalidElement'' [(''element'', toLowerCase U tag)]])
   \<and> (toLowerCase U tag = ''th''
      \<and> getVueAttribute (VElement tag vattrs) ''scope'' = Some (VAttribute k (Some s))
      \<and> toLowerCase U s \<notin> {''col'', ''row'', ''colgroup'', ''rowgroup''}
    \<longrightarrow> scope_VElement U (VElement tag vattrs)
        = [Report ''invalidValue'' [(''value'', toLowerCase U s)]])"
proof (intro conjI impI)
  assume "hasJSXAttribute (JSXOpeningElement (JSXIdentifier nm) attrs) ''scope''
      \<and> toLowerCase U nm \<noteq> ''th''"
  then show "scope_JSXOpeningElement U (JSXOpeningElement (JSXIdentifier nm) attrs)
        = [Report ''invalidElement'' [(''element'', toLowerCase U nm)]]"
    by (simp add: scope_JSXOpeningElement_def Let_def)
next
  show "scope_JSXOpeningElement U (JSXOpeningElement (JSXMemberExpression ob p) attrs) = []"
    by (simp add: scope_JSXOpeningElement_def)
next
  show "scope_JSXOpeningElement U (JSXOpeningElement (JSXNamespacedName ns ln) attrs) = []"
    by (simp add: scope_JSXOpeningElement_def)
next
  assume a: "toLowerCase U nm = ''th''
      \<and> getJSXAttribute (JSXOpeningElement (JSXIdentifier nm) attrs) ''scope''
          = Some (JSXAttribute an (Some v))
      \<and> (v = JSXLiteral (LString s) \<or> v = JSXExpressionContainer (Literal (LString s)))
      \<and> toLowerCase U s \<notin> {''col'', ''row'', ''colgroup'', ''rowgroup''}"
  then have l: "literalOrContainerLower U (Some v) = Some (toLowerCase U s)"
    using literalOrContainerLower_static by blast
  from a show "scope_JSXOpeningElement U (JSXOpeningElement (JSXIdentifier nm) attrs)
        = [Report ''invalidValue'' [(''value'', toLowerCase U s)]]"
    by (simp add: scope_JSXOpeningElement_def Let_def hasJSXAttribute_get l
        VALID_SCOPE_VALUES_def)
next
  assume "hasVueAttribute (VElement tag vattrs) ''scope'' \<and> toLowerCase U tag \<noteq> ''th''"
  then show "scope_VElement U (VElement tag vattrs)
        = [Report ''invalidElement'' [(''element'', toLowerCase U tag)]]"
    by (simp add: scope_VElement_def Let_def)
next
  assume "toLowerCase U tag = ''th''
      \<and> getVueAttribute (VElement tag vattrs) ''scope'' = Some (VAttribute k (Some s))
      \<and> toLowerCase U s \<notin> {''col'', ''row'', ''colgroup'', ''rowgroup''}"
  then show "scope_VElement U (VElement tag vattrs)
        = [Report ''invalidValue'' [(''value'', toLowerCase U s)]]"
    by (simp add: scope_VElement_def Let_def hasVueAttribute_get VALID_SCOPE_VALUES_def)
qed

theorem scope_rule_reports_witness:
  "scope_JSXOpeningElement id (JSXOpeningElement (JSXIdentifier ''td'')
       [JSXAttribute (JSXIdentifier ''scope'') (Some (JSXLiteral (LString ''col'')))])
     = [Report ''invalidElement'' [(''element'', ''td'')]]
   \<and> scope_JSXOpeningElement id (JSXOpeningElement (JSXIdentifier ''th'')
       [JSXAttribute (JSXIdentifier ''scope'') (Some (JSXLiteral (LString ''column'')))])
     = [Report ''invalidValue'' [(''value'', ''column'')]]
   \<and> scope_VElement id (VElement ''td'' [VAttribute ''scope'' (Some ''col'')])
     = [Report ''invalidElement'' [(''element'', ''td'')]]
   \<and> scope_VElement id (VElement ''th'' [VAttribute ''scope'' (Some ''column'')])
     = [Report ''invalidValue'' [(''value'', ''column'')]]"
  using
    scope_rule_reports [where U = id and nm = "''td''"
      and attrs = "[JSXAttribute (JSXIdentifier ''scope'') (Some (JSXLiteral (LString ''col'')))]"
      and an = "JSXIdentifier ''scope''" and v = "JSXLiteral (LString ''col'')"
      and s = "''col''" and tag = "''td''"
      and vattrs = "[VAttribute ''scope'' (Some ''col'')]" and k = "''scope''"]
    scope_rule_reports [where U = id and nm = "''th''"
      and attrs = "[JSXAttribute (JSXIdentifier ''scope'') (Some (JSXLiteral (LString ''column'')))]"
      and an = "JSXIdentifier ''scope''" and v = "JSXLiteral (LString ''column'')"
      and s = "''column''" and tag = "''th''"
      and vattrs = "[VAttribute ''scope'' (Some ''column'')]" and k = "''scope''"]
  by (simp add: lower_td lower_th lower_col lower_column hasJSXAttribute_def
      getJSXAttribute_def hasVueAttribute_def getVueAttribute_def)

text \<open>
  C7, as stated, fails for an element whose tag is not an identifier. The element
  \<open><Table.Cell scope="col">\<close> is not a \<open>th\<close> and carries a \<open>scope\<close> attribute, and the rule
  reports nothing: the JSX handler returns at once unless the tag is an identifier.
\<close>

theorem member_expression_tag_counterexample:
  "jsx_name (JSXOpeningElement (JSXMemberExpression ''Table'' ''Cell'')
        [JSXAttribute (JSXIdentifier ''scope'') (Some (JSXLiteral (LString ''col'')))])
     \<noteq> JSXIdentifier ''th''
   \<and> hasJSXAttribute
     (JSXOpeningElement (JSXMemberExpression ''Table'' ''Cell'')
        [JSXAttribute (JSXIdentifier ''scope'') (Some (JSXLiteral (LString ''col'')))]) ''scope''
   \<and> scope_JSXOpeningElement id
     (JSXOpeningElement (JSXMemberExpression ''Table'' ''Cell'')
        [JSXAttribute (JSXIdentifier ''scope'') (Some (JSXLiteral (LString ''col'')))]) = []"
  by (simp add: scope_JSXOpeningElement_def hasJSXAttribute_def)

lemma no_empty_names:
  "[] \<notin> set NON_INTERACTIVE_ELEMENTS" "[] \<notin> set INTERACTIVE_ROLES"
  by (simp_all add: NON_INTERACTIVE_ELEMENTS_def INTERACTIVE_ROLES_def)

lemma hasJSXKeyboardHandler_rule_iff:
  "hasJSXKeyboardHandler_rule node =
     (hasJSXAttribute node ''onKeyDown'' \<or> hasJSXAttribute node ''onKeyUp''
        \<or> hasJSXAttribute node ''onKeyPress'')"
  by (simp add: hasJSXKeyboardHandler_rule_def JSX_KEYBOARD_HANDLERS_rule_def)

lemma isVueKeyboardDirective_iff:
  "isVueKeyboardDirective a =
     (\<exists>e x. e \<in> {''keydown'', ''keyup'', ''keypress''}
        \<and> a = VDirective ''on'' (Some (VIdentifier e)) x)"
proof (cases a)
  case (VAttribute k v)
  then show ?thesis by simp
next
  case (VDirective d arg x)
  then show ?thesis
    by (cases arg rule: vueArgumentName.cases) auto
qed

lemma hasVueKeyboardHandler_rule_iff:
  "hasVueKeyboardHandler_rule vnode =
     (\<exists>e x. e \<in> {''keydown'', ''keyup'', ''keypress''}
        \<and> VDirective ''on'' (Some (VIdentifier e)) x \<in> set (vue_attributes vnode))"
  unfolding hasVueKeyboardHandler_rule_def list_ex_iff isVueKeyboardDirective_iff
  by blast

text \<open>
  C5, as amended. For every element that resolves to a non-interactive tag and carries
  a static role string whose lower-cased value is an interactive role, the rule reports
  one violation, with the tag as \<open>element\<close> and the lower-cased role as \<open>role\<close>, exactly
  when the element lacks a tabindex attribute or lacks one of the keyboard handlers the
  rule itself looks for, and nothing otherwise: in JSX an attribute \<open>tabIndex\<close> or
  \<open>tabindex\<close>, and an attribute \<open>onKeyDown\<close>, \<open>onKeyUp\<close> or \<open>onKeyPress\<close>; in a template
  an attribute \<open>tabindex\<close>, and a \<open>v-on\<close> directive for \<open>keydown\<close>, \<open>keyup\<close> or
  \<open>keypress\<close>. The instances after the theorem are
  \<open><div role="button" tabIndex={0} onKeyDown={fn}>\<close> and \<open><div role="button">\<close>, in both
  dialects, the JSX tag resolved by the component resolver.
\<close>

theorem noninteractive_role_needs_keyboard:
  assumes "t \<in> set NON_INTERACTIVE_ELEMENTS" and "toLowerCase U r \<in> set INTERACTIVE_ROLES"
  shows "(getElementRoleFromJSX node = Some t
          \<and> getJSXAttribute node ''role'' = Some (JSXAttribute an (Some v))
          \<and> (v = JSXLiteral (LString r) \<or> v = JSXExpressionContainer (Literal (LString r)))
         \<longrightarrow> noNoninteractive_JSXOpeningElement U getElementRoleFromJSX node =
             (if (hasJSXAttribute node ''tabIndex'' \<or> hasJSXAttribute node ''tabindex'')
                 \<and> (hasJSXAttribute node ''onKeyDown'' \<or> hasJSXAttribute node ''onKeyUp''
                      \<or> hasJSXAttribute node ''onKeyPress'')
              then []
              else [Report ''noNoninteractiveToInteractive''
                      [(''element'', t), (''role'', toLowerCase U r)]]))
       \<and> (toLowerCase U (vue_name vnode) = t
          \<and> getVueAttribute vnode ''role'' = Some (VAttribute k (Some r))
         \<longrightarrow> noNoninteractive_VElement U vnode =
             (if hasVueAttribute vnode ''tabindex''
                 \<and> (\<exists>e x. e \<in> {''keydown'', ''keyup'', ''keypress''}
                        \<and> VDirective ''on'' (Some (VIdentifier e)) x \<in> set (vue_attributes vnode))
              then []
              else [Report ''noNoninteractiveToInteractive''
                      [(''element'', t), (''role'', toLowerCase U r)]]))"
proof (intro conjI impI)
  have tne: "t \<noteq> []" and rne: "toLowerCase U r \<noteq> []"
    using assms no_empty_names by auto
  {
    assume a: "getElementRoleFromJSX node = Some t
          \<and> getJSXAttribute node ''role'' = Some (JSXAttribute an (Some v))
          \<and> (v = JSXLiteral (LString r) \<or> v = JSXExpressionContainer (Literal (LString r)))"
    then have l: "literalOrContainerLower U (Some v) = Some (toLowerCase U r)"
      using literalOrContainerLower_static by blast
    from a show "noNoninteractive_JSXOpeningElement U getElementRoleFromJSX node =
             (if (hasJSXAttribute node ''tabIndex'' \<or> hasJSXAttribute node ''tabindex'')
                 \<and> (hasJSXAttribute node ''onKeyDown'' \<or> hasJSXAttribute node ''onKeyUp''
                      \<or> hasJSXAttribute node ''onKeyPress'')
              then []
              else [Report ''noNoninteractiveToInteractive''
                      [(''element'', t), (''role'', toLowerCase U r)]])"
      unfolding noNoninteractive_JSXOpeningElement_def Let_def hasJSXKeyboardHandler_rule_iff
      using assms tne rne l by simp
  }
  {
    assume a: "toLowerCase U (vue_name vnode) = t
          \<and> getVueAttribute vnode ''role'' = Some (VAttribute k (Some r))"
    then show "noNoninteractive_VElement U vnode =
             (if hasVueAttribute vnode ''tabindex''
                 \<and> (\<exists>e x. e \<in> {''keydown'', ''keyup'', ''keypress''}
                        \<and> VDirective ''on'' (Some (VIdentifier e)) x \<in> set (vue_attributes vnode))
              then []
              else [Report ''noNoninteractiveToInteractive''
                      [(''element'', t), (''role'', toLowerCase U r)]])"
      unfolding noNoninteractive_VElement_def Let_def hasVueKeyboardHandler_rule_iff
      using assms tne rne by simp
  }
qed

theorem noninteractive_role_needs_keyboard_witness:
  "''div'' \<in> set NON_INTERACTIVE_ELEMENTS \<and> toLowerCase id ''button'' \<in> set INTERACTIVE_ROLES
   \<and> noNoninteractive_JSXOpeningElement id
        (\<lambda>n. resolveNativeTag [''a'', ''button'', ''div''] n buttonMapping)
        (JSXOpeningElement (JSXIdentifier ''div'')
           [JSXAttribute (JSXIdentifier ''role'') (Some (JSXLiteral (LString ''button''))),
            JSXAttribute (JSXIdentifier ''tabIndex'')
              (Some (JSXExpressionContainer (Literal (LNumber 0)))),
            JSXAttribute (JSXIdentifier ''onKeyDown'')
              (Some (JSXExpressionContainer (Dynamic ''fn'')))])
      = []
   \<and> noNoninteractive_JSXOpeningElement id
        (\<lambda>n. resolveNativeTag [''a'', ''button'', ''div''] n buttonMapping)
        (JSXOpeningElement (JSXIdentifier ''div'')
           [JSXAttribute (JSXIdentifier ''role'') (Some (JSXLiteral (LString ''button'')))])
      = [Report ''noNoninteractiveToInteractive'' [(''element'', ''div''), (''role'', ''button'')]]
   \<and> noNoninteractive_VElement id
        (VElement ''div''
           [VAttribute ''role'' (Some ''button''), VAttribute ''tabindex'' (Some ''0''),
            VDirective ''on'' (Some (VIdentifier ''keydown'')) (Some ''fn'')])
      = []
   \<and> noNoninteractive_VElement id (VElement ''div'' [VAttribute ''role'' (Some ''button'')])
      = [Report ''noNoninteractiveToInteractive'' [(''element'', ''div''), (''role'', ''button'')]]"
proof -
  have a: "''div'' \<in> set NON_INTERACTIVE_ELEMENTS"
    by (simp add: NON_INTERACTIVE_ELEMENTS_def)
  have b: "toLowerCase id ''button'' \<in> set INTERACTIVE_ROLES"
    by (simp add: lower_button INTERACTIVE_ROLES_def)
  let ?res = "\<lambda>n. resolveNativeTag [''a'', ''button'', ''div''] n buttonMapping"
  let ?role = "JSXAttribute (JSXIdentifier ''role'') (Some (JSXLiteral (LString ''button'')))"
  let ?full = "JSXOpeningElement (JSXIdentifier ''div'')
           [?role,
            JSXAttribute (JSXIdentifier ''tabIndex'')
              (Some (JSXExpressionContainer (Literal (LNumber 0)))),
            JSXAttribute (JSXIdentifier ''onKeyDown'')
              (Some (JSXExpressionContainer (Dynamic ''fn'')))]"
  let ?bare = "JSXOpeningElement (JSXIdentifier ''div'') [?role]"
  let ?vfull = "VElement ''div''
           [VAttribute ''role'' (Some ''button''), VAttribute ''tabindex'' (Some ''0''),
            VDirective ''on'' (Some (VIdentifier ''keydown'')) (Some ''fn'')]"
  let ?vbare = "VElement ''div'' [VAttribute ''role'' (Some ''button'')]"
  note w = noninteractive_role_needs_keyboard [OF a b]
  have 1: "noNoninteractive_JSXOpeningElement id ?res ?full = []"
    using w [where getElementRoleFromJSX = ?res and node = ?full
        and an = "JSXIdentifier ''role''" and v = "JSXLiteral (LString ''button'')"
        and vnode = ?vfull and k = "''role''"]
    by (simp add: resolveNativeTag_def getJSXAttribute_def hasJSXAttribute_def)
  have 2: "noNoninteractive_JSXOpeningElement id ?res ?bare
      = [Report ''noNoninteractiveToInteractive'' [(''element'', ''div''), (''role'', ''button'')]]"
    using w [where getElementRoleFromJSX = ?res and node = ?bare
        and an = "JSXIdentifier ''role''" and v = "JSXLiteral (LString ''button'')"
        and vnode = ?vbare and k = "''role''"]
    by (simp add: resolveNativeTag_def getJSXAttribute_def hasJSXAttribute_def lower_button)
  have 3: "noNoninteractive_VElement id ?vfull = []"
    using w [where getElementRoleFromJSX = ?res and node = ?full
        and an = "JSXIdentifier ''role''" and v = "JSXLiteral (LString ''button'')"
        and vnode = ?vfull and k = "''role''"]
    by (simp add: lower_div getVueAttribute_def hasVueAttribute_def)
  have 4: "noNoninteractive_VElement id ?vbare
      = [Report ''noNoninteractiveToInteractive'' [(''element'', ''div''), (''role'', ''button'')]]"
    using w [where getElementRoleFromJSX = ?res and node = ?bare
        and an = "JSXIdentifier ''role''" and v = "JSXLiteral (LString ''button'')"
        and vnode = ?vbare and k = "''role''"]
    by (simp add: lower_div getVueAttribute_def hasVueAttribute_def lower_button)
  from a b 1 2 3 4 show ?thesis by simp
qed

text \<open>
  C5, as stated, fails for a capture-phase handler. The element
  \<open><div role="button" tabIndex={0} onKeyDownCapture={fn}>\<close> has a tabindex attribute and
  a keyboard event handler (the keyboard query of the event utilities answers true),
  and the rule still reports it: the rule looks for the three bubbling handler names
  only.
\<close>

theorem capture_handler_counterexample:
  "hasJSXAttribute
     (JSXOpeningElement (JSXIdentifier ''div'')
        [JSXAttribute (JSXIdentifier ''role'') (Some (JSXLiteral (LString ''button''))),
         JSXAttribute (JSXIdentifier ''tabIndex'')
           (Some (JSXExpressionContainer (Literal (LNumber 0)))),
         JSXAttribute (JSXIdentifier ''onKeyDownCapture'')
           (Some (JSXExpressionContainer (Dynamic ''fn'')))]) ''tabIndex''
   \<and> hasJSXKeyboardHandler
     (JSXOpeningElement (JSXIdentifier ''div'')
        [JSXAttribute (JSXIdentifier ''role'') (Some (JSXLiteral (LString ''button''))),
         JSXAttribute (JSXIdentifier ''tabIndex'')
           (Some (JSXExpressionContainer (Literal (LNumber 0)))),
         JSXAttribute (JSXIdentifier ''onKeyDownCapture'')
           (Some (JSXExpressionContainer (Dynamic ''fn'')))])
   \<and> noNoninteractive_JSXOpeningElement id
     (\<lambda>n. resolveNativeTag [''a'', ''button'', ''div''] n buttonMapping)
     (JSXOpeningElement (JSXIdentifier ''div'')
        [JSXAttribute (JSXIdentifier ''role'') (Some (JSXLiteral (LString ''button''))),
         JSXAttribute (JSXIdentifier ''tabIndex'')
           (Some (JSXExpressionContainer (Literal (LNumber 0)))),
         JSXAttribute (JSXIdentifier ''onKeyDownCapture'')
           (Some (JSXExpressionContainer (Dynamic ''fn'')))])
     = [Report ''noNoninteractiveToInteractive'' [(''element'', ''div''), (''role'', ''button'')]]"
  by (simp add: hasJSXKeyboardHandler_def JSX_KEYBOARD_HANDLERS_SET_def JSX_KEYBOARD_HANDLERS_def
      noNoninteractive_JSXOpeningElement_def NON_INTERACTIVE_ELEMENTS_def INTERACTIVE_ROLES_def
      getJSXAttribute_def hasJSXAttribute_def lower_button hasJSXKeyboardHandler_rule_def
      JSX_KEYBOARD_HANDLERS_rule_def resolveNativeTag_def)
end
